theory Spec2Isabelle
  imports Main "HOL-Library.AList" "HOL-Library.Sublist"
begin

section \<open>Python library functions used by the sources\<close>

text \<open>
  A Python \<open>str\<close> is modelled as a HOL \<open>string\<close>, one \<open>char\<close> per code point, for
  code points below 256. The functions of this section are the built-ins the sources
  call (\<open>str.strip\<close>, \<open>int\<close>, \<open>str.splitlines\<close>, \<open>str\<close> of an integer,
  \<open>os.path.join\<close>); a \<open>ValueError\<close> of \<open>int\<close> is the value \<open>None\<close>.
\<close>

definition py_isspace :: "char \<Rightarrow> bool" where
  \<comment> \<open>\<open>str.isspace\<close> on one code point below 256\<close>
  "py_isspace c =
     (let n = (of_char c :: nat)
      in (9 \<le> n \<and> n \<le> 13) \<or> (28 \<le> n \<and> n \<le> 32) \<or> n = 133 \<or> n = 160)"

definition py_strip :: "string \<Rightarrow> string" where
  \<comment> \<open>\<open>s.strip()\<close>\<close>
  "py_strip s = rev (dropWhile py_isspace (rev (dropWhile py_isspace s)))"

definition py_isdigit :: "char \<Rightarrow> bool" where
  "py_isdigit c = (48 \<le> (of_char c :: nat) \<and> (of_char c :: nat) \<le> 57)"

definition digit_val :: "char \<Rightarrow> int" where
  "digit_val c = int (of_char c) - 48"

fun int_digits :: "int \<Rightarrow> nat \<Rightarrow> string \<Rightarrow> (int \<times> nat) option" where
  \<comment> \<open>the rest of a decimal literal after a digit: digits, single underscores between
      them; returns the value and the number of digits read\<close>
  "int_digits acc n [] = Some (acc, n)"
| "int_digits acc n (c # cs) =
     (if py_isdigit c then int_digits (acc * 10 + digit_val c) (Suc n) cs
      else if c = CHR ''_'' then
        (case cs of
           [] \<Rightarrow> None
         | d # ds \<Rightarrow>
             if py_isdigit d then int_digits (acc * 10 + digit_val d) (Suc n) ds
             else None)
      else None)"

definition int_literal :: "string \<Rightarrow> (int \<times> nat) option" where
  "int_literal s =
     (case s of
        [] \<Rightarrow> None
      | c # cs \<Rightarrow> if py_isdigit c then int_digits (digit_val c) 1 cs else None)"

definition py_int :: "nat \<Rightarrow> string \<Rightarrow> int option" where
  \<comment> \<open>\<open>int(s)\<close> in base 10. \<open>lim\<close> is the interpreter's limit on the number of digits
      (\<open>sys.get_int_max_str_digits()\<close>; 0 means no limit). \<open>None\<close> is \<open>ValueError\<close>.\<close>
  "py_int lim s =
     (let t = py_strip s;
          (neg, body) =
            (case t of
               [] \<Rightarrow> (False, [])
             | c # cs \<Rightarrow>
                 if c = CHR ''-'' then (True, cs)
                 else if c = CHR ''+'' then (False, cs)
                 else (False, t))
      in case int_literal body of
           None \<Rightarrow> None
         | Some (v, n) \<Rightarrow>
             if 0 < lim \<and> lim < n then None
             else Some (if neg then - v else v))"

definition py_islinebreak :: "char \<Rightarrow> bool" where
  \<comment> \<open>the line boundaries of \<open>str.splitlines\<close> below code point 256\<close>
  "py_islinebreak c =
     (let n = (of_char c :: nat)
      in (10 \<le> n \<and> n \<le> 13) \<or> (28 \<le> n \<and> n \<le> 30) \<or> n = 133)"

fun splitlines_from :: "string \<Rightarrow> string \<Rightarrow> string list" where
  "splitlines_from cur [] = (if cur = [] then [] else [cur])"
| "splitlines_from cur (c # cs) =
     (if c = CHR 0x0D \<and> (case cs of [] \<Rightarrow> False | d # _ \<Rightarrow> d = CHR 0x0A)
        then cur # splitlines_from [] (tl cs)
      else if py_islinebreak c then cur # splitlines_from [] cs
      else splitlines_from (cur @ [c]) cs)"

definition py_splitlines :: "string \<Rightarrow> string list" where
  \<comment> \<open>\<open>s.splitlines()\<close>\<close>
  "py_splitlines s = splitlines_from [] s"

definition os_path_join :: "string \<Rightarrow> string \<Rightarrow> string" where
  \<comment> \<open>\<open>posixpath.join(a, b)\<close> with two arguments\<close>
  "os_path_join a b =
     (if b \<noteq> [] \<and> hd b = CHR ''/'' then b
      else if a = [] \<or> last a = CHR ''/'' then a @ b
      else a @ ''/'' @ b)"

section \<open>core/git\_utils.py\<close>

record RepoStatus =
  ok :: bool
  repo_path :: string
  branch :: "string option"
  upstream :: "string option"
  behind :: int
  ahead :: int
  dirty :: int
  fetch_error :: "string option"
  error :: "string option"

definition has_updates :: "RepoStatus \<Rightarrow> bool" where
  "has_updates self = (ok self \<and> behind self > 0)"

text \<open>
  The platform the module runs on. \<open>'w\<close> is the state of the outside world (file system,
  repository, remotes); running a command may change it. \<open>subprocess_run w argv cwd
  timeout\<close> is \<open>subprocess.run\<close> with captured text output: \<open>Inl msg\<close> when it raises an
  exception whose \<open>str\<close> is \<open>msg\<close> (spawn failure, timeout, decoding error), \<open>Inr (returncode,
  stdout, stderr)\<close> otherwise.
\<close>

record 'w platform =
  isdir :: "'w \<Rightarrow> string \<Rightarrow> bool"
  subprocess_run :: "'w \<Rightarrow> string list \<Rightarrow> string \<Rightarrow> nat \<Rightarrow> (string + int \<times> string \<times> string) \<times> 'w"
  int_max_str_digits :: nat

definition run_git ::
  "'w platform \<Rightarrow> 'w \<Rightarrow> string list \<Rightarrow> string \<Rightarrow> nat \<Rightarrow> (int \<times> string \<times> string) \<times> 'w" where
  "run_git sys w args cwd timeout =
     (case subprocess_run sys w (''git'' # args) cwd timeout of
        (Inr cp, w') \<Rightarrow> (cp, w')
      | (Inl exc, w') \<Rightarrow> ((1, [], exc), w'))"

definition get_branch :: "'w platform \<Rightarrow> 'w \<Rightarrow> string \<Rightarrow> string option \<times> 'w" where
  "get_branch sys w cwd =
     (case run_git sys w [''rev-parse'', ''--abbrev-ref'', ''HEAD''] cwd 15 of
        ((rc, out, _), w') \<Rightarrow> (if rc = 0 then Some (py_strip out) else None, w'))"

definition get_upstream ::
  "'w platform \<Rightarrow> 'w \<Rightarrow> string \<Rightarrow> string option \<Rightarrow> string option \<times> 'w" where
  "get_upstream sys w cwd br =
     (case run_git sys w
             [''rev-parse'', ''--abbrev-ref'', ''--symbolic-full-name'', CHR ''@'' # ''{u}''] cwd 15 of
        ((rc, out, _), w') \<Rightarrow>
          (if rc = 0 then Some (py_strip out)
           else (case br of
                   Some b \<Rightarrow> if b \<noteq> [] then Some (''origin/'' @ b) else None
                 | None \<Rightarrow> None),
           w'))"

definition get_dirty_count :: "'w platform \<Rightarrow> 'w \<Rightarrow> string \<Rightarrow> int \<times> 'w" where
  "get_dirty_count sys w cwd =
     (case run_git sys w [''status'', ''--porcelain''] cwd 15 of
        ((rc, out, _), w') \<Rightarrow>
          (if rc \<noteq> 0 then 0
           else int (length (filter (\<lambda>ln. py_strip ln \<noteq> []) (py_splitlines out))),
           w'))"

definition check_repo_status :: "'w platform \<Rightarrow> 'w \<Rightarrow> string \<Rightarrow> RepoStatus \<times> 'w" where
  "check_repo_status sys w path =
     (if \<not> isdir sys w path then
        (\<lparr>ok = False, repo_path = path, branch = None, upstream = None, behind = 0,
          ahead = 0, dirty = 0, fetch_error = None,
          error = Some ''Repository path not found''\<rparr>, w)
      else if \<not> isdir sys w (os_path_join path ''.git'') then
        (\<lparr>ok = False, repo_path = path, branch = None, upstream = None, behind = 0,
          ahead = 0, dirty = 0, fetch_error = None,
          error = Some ''Not a git repository''\<rparr>, w)
      else
        let ((rc, _, err), w1) = run_git sys w [''fetch'', ''--all'', ''--prune''] path 15;
            ferr = (if rc \<noteq> 0
                    then Some (py_strip (if err \<noteq> [] then err else ''fetch failed''))
                    else None);
            (br, w2) = get_branch sys w1 path;
            (up, w3) = get_upstream sys w2 path br;
            ((bh, ah), w5) =
              (case up of
                 None \<Rightarrow> ((0, 0), w3)
               | Some u \<Rightarrow>
                   if u = [] then ((0, 0), w3)
                   else
                     let ((rc_b, out_b, _), w4) =
                           run_git sys w3 [''rev-list'', ''--count'', ''HEAD..'' @ u] path 15;
                         bh = (if rc_b = 0
                               then (case py_int (int_max_str_digits sys)
                                            (if py_strip out_b \<noteq> [] then py_strip out_b
                                             else ''0'') of
                                       Some n \<Rightarrow> n
                                     | None \<Rightarrow> 0)
                               else 0);
                         ((rc_a, out_a, _), w5) =
                           run_git sys w4 [''rev-list'', ''--count'', u @ ''..HEAD''] path 15;
                         ah = (if rc_a = 0
                               then (case py_int (int_max_str_digits sys)
                                            (if py_strip out_a \<noteq> [] then py_strip out_a
                                             else ''0'') of
                                       Some n \<Rightarrow> n
                                     | None \<Rightarrow> 0)
                               else 0)
                     in ((bh, ah), w5));
            (d, w6) = get_dirty_count sys w5 path
        in (\<lparr>ok = True, repo_path = path, branch = br, upstream = up, behind = bh,
             ahead = ah, dirty = d, fetch_error = ferr, error = None\<rparr>, w6))"

section \<open>utils/process.py\<close>

text \<open>
  What the model of this module takes for granted:
  \<^item> the callbacks \<open>on_line\<close> and \<open>logger\<close> return normally; a call of either is
    recorded, in order, in a list the function returns;
  \<^item> the imports of the module and the local \<open>import pty\<close> succeed;
  \<^item> a call into the library returns or raises; only a loop of the sources themselves
    may run for ever, and then the function has the value \<open>None\<close>;
  \<^item> the feeder threads are modelled by the functions they run, each on its own; what
    other threads do in between is part of the state of the outside world.
\<close>

subsection \<open>Library values\<close>

text \<open>
  An exception carries what the handlers of the module look at: whether it is an
  \<open>OSError\<close>, its \<open>errno\<close>, and its \<open>str\<close>.
\<close>

datatype exn = OSError "int option" string | OtherException string

fun exn_str :: "exn \<Rightarrow> string" where
  "exn_str (OSError _ msg) = msg"
| "exn_str (OtherException msg) = msg"

definition ENOEXEC :: int where
  "ENOEXEC = 8"

definition digit_char :: "nat \<Rightarrow> char" where
  "digit_char d = ''0123456789abcdef'' ! d"

fun decimal :: "nat \<Rightarrow> string" where
  "decimal n =
     (if n < 10 then [digit_char n] else decimal (n div 10) @ [digit_char (n mod 10)])"

declare decimal.simps [simp del]

definition py_str_int :: "int \<Rightarrow> string" where
  \<comment> \<open>\<open>str(i)\<close>, the text an f-string puts for an integer\<close>
  "py_str_int i = (if i < 0 then CHR ''-'' # decimal (nat (- i)) else decimal (nat i))"

fun py_join :: "string \<Rightarrow> string list \<Rightarrow> string" where
  \<comment> \<open>\<open>sep.join(xs)\<close>\<close>
  "py_join sep [] = []"
| "py_join sep [x] = x"
| "py_join sep (x # y # ys) = x @ sep @ py_join sep (y # ys)"

datatype stdio = Inherited | PIPE | STDOUT | Fd nat

record popen_call =
  argv :: "string list"
  cwd :: "string option"
  stdin_spec :: stdio
  stdout_spec :: stdio
  stderr_spec :: stdio
  text_mode :: bool
  env :: "(string \<times> string) list option"

text \<open>
  The host of the module: the operating system and the interpreter's library, as
  operations on the state \<open>'w\<close> of the outside world. An operation that can raise returns
  \<open>Inl\<close> of the exception. A child process is named by a number.
  \<^item> \<open>popen\<close> is \<open>subprocess.Popen\<close>; \<open>stdout_readline\<close>, \<open>stdout_close\<close> and
    \<open>proc_wait\<close> are \<open>p.stdout.readline()\<close>, \<open>p.stdout.close()\<close> and \<open>p.wait()\<close>.
  \<^item> \<open>decode_replace\<close> and \<open>encode_replace\<close> are \<open>bytes.decode("utf-8", "replace")\<close>
    and \<open>str.encode("utf-8", "replace")\<close>.
  \<^item> \<open>openpty\<close>, \<open>os_close\<close>, \<open>os_write\<close> are the functions of \<open>pty\<close> and \<open>os\<close>;
    \<open>fdopen\<close> is \<open>os.fdopen\<close> followed by \<open>io.TextIOWrapper\<close>; \<open>thread_start\<close>
    is \<open>threading.Thread(...).start()\<close>; \<open>time_sleep\<close> is \<open>time.sleep\<close>, in
    milliseconds.
  \<^item> \<open>pipe_closed w p\<close> is the attribute \<open>closed\<close> of the standard-input pipe of child
    \<open>p\<close>, \<open>pipe_fd p\<close> its descriptor.
  \<^item> \<open>which\<close> is \<open>shutil.which\<close>.
\<close>

record 'w host =
  environ :: "'w \<Rightarrow> (string \<times> string) list"
  popen :: "'w \<Rightarrow> popen_call \<Rightarrow> (exn + nat) \<times> 'w"
  stdout_readline :: "'w \<Rightarrow> nat \<Rightarrow> (exn + string) \<times> 'w"
  stdout_close :: "'w \<Rightarrow> nat \<Rightarrow> 'w"
  proc_wait :: "'w \<Rightarrow> nat \<Rightarrow> int \<times> 'w"
  decode_replace :: "string \<Rightarrow> string"
  encode_replace :: "string \<Rightarrow> string"
  openpty :: "'w \<Rightarrow> (exn + nat \<times> nat) \<times> 'w"
  os_close :: "'w \<Rightarrow> nat \<Rightarrow> 'w"
  fdopen :: "'w \<Rightarrow> nat \<Rightarrow> (exn + unit) \<times> 'w"
  thread_start :: "'w \<Rightarrow> (exn + unit) \<times> 'w"
  os_write :: "'w \<Rightarrow> nat \<Rightarrow> string \<Rightarrow> (exn + nat) \<times> 'w"
  time_sleep :: "'w \<Rightarrow> nat \<Rightarrow> 'w"
  pipe_closed :: "'w \<Rightarrow> nat \<Rightarrow> bool"
  pipe_fd :: "nat \<Rightarrow> nat"
  which :: "'w \<Rightarrow> string \<Rightarrow> exn + string option"

subsection \<open>build\_color\_env\<close>

definition build_color_env ::
  "'w host \<Rightarrow> 'w \<Rightarrow> (string \<times> string) list option \<Rightarrow> bool \<Rightarrow> (string \<times> string) list" where
  \<comment> \<open>a dictionary is the list of its items in insertion order\<close>
  "build_color_env h w base force_color =
     (let env0 = (case base of
                    None \<Rightarrow> environ h w
                  | Some b \<Rightarrow> if b = [] then environ h w else b)
      in if force_color then
           AList.delete ''NO_COLOR''
             (AList.update ''TERM''
                (case map_of env0 ''TERM'' of
                   None \<Rightarrow> ''xterm-256color''
                 | Some t \<Rightarrow> if t \<noteq> [] then t else ''xterm-256color'')
                (AList.update ''CLICOLOR_FORCE'' ''1''
                   (AList.update ''CLICOLOR'' ''1''
                      (AList.update ''FORCE_COLOR'' ''1'' env0))))
         else env0)"

subsection \<open>stream\_process\_lines\<close>

text \<open>
  The callback \<open>on_line\<close> is modelled by the list of the lines it is called with, in the
  order of the calls. The reading loop ends when \<open>readline\<close> returns the empty string or
  raises; a child that never stops writing keeps it running for ever, which is the value
  \<open>None\<close>.
\<close>

partial_function (option) read_loop ::
  "'w host \<Rightarrow> nat \<Rightarrow> bool \<Rightarrow> 'w \<Rightarrow> string list \<Rightarrow> (string list \<times> 'w) option" where
  "read_loop h p text w delivered =
     (case stdout_readline h w p of
        (Inl ex, w') \<Rightarrow>
          Some (delivered @ [''[stream error] '' @ exn_str ex @ ''\<newline>''], w')
      | (Inr line, w') \<Rightarrow>
          if line = [] then Some (delivered, w')
          else read_loop h p text w'
                 (delivered @ [if text then line else decode_replace h line]))"

definition stream_process_lines ::
  "'w host \<Rightarrow> 'w \<Rightarrow> string list \<Rightarrow> string option \<Rightarrow> (string \<times> string) list option \<Rightarrow> bool
     \<Rightarrow> (int \<times> string list \<times> 'w) option" where
  "stream_process_lines h w cmd dir e text =
     (case popen h w \<lparr>argv = cmd, cwd = dir, stdin_spec = Inherited, stdout_spec = PIPE,
                       stderr_spec = STDOUT, text_mode = text, env = e\<rparr> of
        (Inl ex, w1) \<Rightarrow>
          Some (1, [''[error] failed to spawn: '' @ exn_str ex @ ''\<newline>''], w1)
      | (Inr p, w1) \<Rightarrow>
          (case read_loop h p text w1 [] of
             None \<Rightarrow> None
           | Some (delivered, w2) \<Rightarrow>
               let w3 = stdout_close h w2 p;
                   (rc, w4) = proc_wait h w3 p
               in Some (rc, delivered @ [''[exit '' @ py_str_int rc @ '']\<newline>''], w4)))"

subsection \<open>spawn\_setup\_install\<close>

text \<open>
  \<open>PTYStdout\<close>. The wrapped stream is any state \<open>'s\<close> with an operation \<open>rd\<close> for
  \<open>stream.read(1)\<close>: it returns the text read (empty at the end of the stream), raises,
  or never returns because no data arrives (\<open>None\<close>).
\<close>

record 's PTYStdout =
  stream :: 's
  buffer :: string

definition py_split1 :: "string \<Rightarrow> string \<times> string" where
  \<comment> \<open>\<open>s.split(newline, 1)\<close> for a string that contains a newline\<close>
  "py_split1 s =
     (takeWhile (\<lambda>c. c \<noteq> CHR 0x0A) s, drop 1 (dropWhile (\<lambda>c. c \<noteq> CHR 0x0A) s))"

partial_function (option) readline ::
  "('s \<Rightarrow> ((exn + string) \<times> 's) option) \<Rightarrow> 's PTYStdout
     \<Rightarrow> ((exn + string) \<times> 's PTYStdout) option" where
  "readline rd self =
     (case rd (stream self) of
        None \<Rightarrow> None
      | Some (Inl ex, s') \<Rightarrow> Some (Inl ex, self\<lparr>stream := s'\<rparr>)
      | Some (Inr chunk, s') \<Rightarrow>
          if chunk = [] then
            (if buffer self \<noteq> []
             then Some (Inr (buffer self), \<lparr>stream = s', buffer = []\<rparr>)
             else Some (Inr [], \<lparr>stream = s', buffer = buffer self\<rparr>))
          else
            let buf = buffer self @ chunk
            in if CHR 0x0A \<in> set buf then
                 (case py_split1 buf of
                    (line, rest) \<Rightarrow>
                      Some (Inr (line @ ''\<newline>''), \<lparr>stream = s', buffer = rest\<rparr>))
               else readline rd \<lparr>stream = s', buffer = buf\<rparr>)"

text \<open>
  The stream that \<open>spawn_setup_install\<close> hands to \<open>PTYStdout\<close>: \<open>io.TextIOWrapper\<close> with
  \<open>newline="\n"\<close> (no translation on reading) over the unbuffered master side of the
  pseudo-terminal. Its state is the chunks that arrived at the master side and were not
  read yet, and whether the child still holds the other side open. \<open>pty_read1\<close> is
  \<open>read(1)\<close> on it, on Linux: the next character, whatever chunk it arrived in; no return
  while nothing has arrived and the child holds its side open; and, once the child has
  closed its side and everything that arrived was read, \<open>OSError\<close> with \<open>errno\<close> \<open>EIO\<close>, on
  every call: the master side of a pseudo-terminal has no read that returns the empty
  string there.

  What arrives at the master side is what the child wrote, after the output processing
  of the terminal; in the mode a new pseudo-terminal has (\<open>ONLCR\<close>) this puts a carriage
  return before every newline: \<open>onlcr\<close>.
\<close>

definition EIO :: int where
  "EIO = 5"

fun onlcr :: "string \<Rightarrow> string" where
  "onlcr [] = []"
| "onlcr (c # s) = (if c = CHR 0x0A then CHR 0x0D # c # onlcr s else c # onlcr s)"

fun pty_read1 :: "string list \<times> bool \<Rightarrow> ((exn + string) \<times> (string list \<times> bool)) option" where
  "pty_read1 ([], child_open) =
     (if child_open then None
      else Some (Inl (OSError (Some EIO) ''[Errno 5] Input/output error''), ([], child_open)))"
| "pty_read1 ([] # cs, child_open) = pty_read1 (cs, child_open)"
| "pty_read1 ((c # r) # cs, child_open) = Some (Inr [c], (r # cs, child_open))"

definition pty_master_stream :: "string list \<Rightarrow> bool \<Rightarrow> string list \<times> bool" where
  \<comment> \<open>the master side after the child made these writes\<close>
  "pty_master_stream writes child_open = (map onlcr writes, child_open)"

text \<open>
  The handle \<open>spawn_setup_install\<close> returns: the child, the attribute
  \<open>_pty_master_fd\<close> when it was set, and \<open>p.stdin\<close> (the pipe of the child, absent in
  pseudo-terminal mode). Effects are recorded as events in the order they happen: a call
  of \<open>logger\<close>, a call of \<open>Popen\<close> with its command, the start of a feeder thread, a
  completed \<open>os.write\<close>.
\<close>

record proc =
  pid :: nat
  pty_master_fd :: "nat option"
  stdin :: "nat option"

datatype feeder = Feed "string list" | FeedYesforall

datatype event = Log string | Exec "string list" | Start feeder | Wrote nat string

definition start_feeder ::
  "'w host \<Rightarrow> 'w \<Rightarrow> string list option \<Rightarrow> proc \<Rightarrow> (exn + proc) \<times> event list \<times> 'w" where
  "start_feeder h w auto_input_seq p =
     (case thread_start h w of
        (Inl ex, w') \<Rightarrow> (Inl ex, [], w')
      | (Inr _, w') \<Rightarrow>
          (Inr p,
           [Start (case auto_input_seq of
                     None \<Rightarrow> FeedYesforall
                   | Some items \<Rightarrow> if items \<noteq> [] then Feed items else FeedYesforall)],
           w'))"

definition pty_setup ::
  "'w host \<Rightarrow> 'w \<Rightarrow> bool \<Rightarrow> (nat \<times> nat) option \<times> event list \<times> 'w" where
  \<comment> \<open>the first lines of the \<open>try\<close> body: the descriptors when a pseudo-terminal is
      wanted and could be opened\<close>
  "pty_setup h w use_pty =
     (if use_pty then
        (case openpty h w of
           (Inl ex, w') \<Rightarrow>
             (None,
              [Log (''[pty-warn] failed to open pty: '' @ exn_str ex
                    @ ''; fallback no-pty\<newline>'')],
              w')
         | (Inr fds, w') \<Rightarrow> (Some fds, [], w'))
      else (None, [], w))"

definition spawn_pty ::
  "'w host \<Rightarrow> 'w \<Rightarrow> string list \<Rightarrow> string \<Rightarrow> string list option \<Rightarrow> nat \<Rightarrow> nat
     \<Rightarrow> (exn + proc) \<times> event list \<times> 'w" where
  \<comment> \<open>the branch for the pseudo-terminal mode, up to the start of the feeder\<close>
  "spawn_pty h w cmd path auto_input_seq master_fd slave_fd =
     (case popen h w \<lparr>argv = cmd, cwd = Some path, stdin_spec = Fd slave_fd,
                       stdout_spec = Fd slave_fd, stderr_spec = Fd slave_fd,
                       text_mode = False,
                       env = Some (build_color_env h w None True)\<rparr> of
        (Inl ex, w2) \<Rightarrow> (Inl ex, [Exec cmd], w2)
      | (Inr child, w2) \<Rightarrow>
          (case fdopen h (os_close h w2 slave_fd) master_fd of
             (Inl ex, w3) \<Rightarrow> (Inl ex, [Exec cmd], w3)
           | (Inr _, w3) \<Rightarrow>
               (case start_feeder h w3 auto_input_seq
                       \<lparr>pid = child, pty_master_fd = Some master_fd, stdin = None\<rparr> of
                  (r, ev, w4) \<Rightarrow>
                    (r,
                     [Exec cmd, Log (''[spawn/pty] '' @ py_join '' '' cmd @ ''\<newline>'')] @ ev,
                     w4))))"

definition spawn_pipe ::
  "'w host \<Rightarrow> 'w \<Rightarrow> string list \<Rightarrow> string \<Rightarrow> bool \<Rightarrow> string list option
     \<Rightarrow> (exn + proc) \<times> event list \<times> 'w" where
  \<comment> \<open>the branch for the pipe mode, up to the start of the feeder\<close>
  "spawn_pipe h w cmd path capture_stdout auto_input_seq =
     (case popen h w \<lparr>argv = cmd, cwd = Some path, stdin_spec = PIPE,
                       stdout_spec = (if capture_stdout then PIPE else Inherited),
                       stderr_spec = (if capture_stdout then STDOUT else Inherited),
                       text_mode = True,
                       env = Some (build_color_env h w None True)\<rparr> of
        (Inl ex, w2) \<Rightarrow> (Inl ex, [Exec cmd], w2)
      | (Inr child, w2) \<Rightarrow>
          (case start_feeder h w2 auto_input_seq
                  \<lparr>pid = child, pty_master_fd = None, stdin = Some child\<rparr> of
             (r, ev, w3) \<Rightarrow>
               (r, [Exec cmd, Log (''[spawn] '' @ py_join '' '' cmd @ ''\<newline>'')] @ ev, w3)))"

definition spawn_attempt ::
  "'w host \<Rightarrow> 'w \<Rightarrow> string list \<Rightarrow> string \<Rightarrow> bool \<Rightarrow> string list option \<Rightarrow> bool
     \<Rightarrow> (exn + proc) \<times> event list \<times> 'w" where
  \<comment> \<open>the body of the \<open>try\<close> in the loop over the commands\<close>
  "spawn_attempt h w cmd path capture_stdout auto_input_seq use_pty =
     (case pty_setup h w use_pty of
        (fds, ev1, w1) \<Rightarrow>
          (case (case fds of
                   Some (master_fd, slave_fd) \<Rightarrow>
                     spawn_pty h w1 cmd path auto_input_seq master_fd slave_fd
                 | None \<Rightarrow> spawn_pipe h w1 cmd path capture_stdout auto_input_seq) of
             (r, ev2, w2) \<Rightarrow> (r, ev1 @ ev2, w2)))"

fun try_cmds ::
  "'w host \<Rightarrow> 'w \<Rightarrow> string list list \<Rightarrow> string \<Rightarrow> bool \<Rightarrow> string list option \<Rightarrow> bool
     \<Rightarrow> proc option \<times> event list \<times> 'w" where
  \<comment> \<open>the loop \<open>for cmd in base_cmds\<close> with its handlers, and the lines after it\<close>
  "try_cmds h w [] path capture_stdout auto_input_seq use_pty =
     (None, [Log ''[error] All setup execution fallbacks failed.\<newline>''], w)"
| "try_cmds h w (cmd # cmds) path capture_stdout auto_input_seq use_pty =
     (case spawn_attempt h w cmd path capture_stdout auto_input_seq use_pty of
        (Inr p, ev, w') \<Rightarrow> (Some p, ev, w')
      | (Inl (OSError eno msg), ev, w') \<Rightarrow>
          if eno = Some ENOEXEC then
            (case try_cmds h w' cmds path capture_stdout auto_input_seq use_pty of
               (r, ev', w'') \<Rightarrow>
                 (r,
                  ev @ [Log (''[warn] Exec format error with '' @ py_join '' '' cmd
                             @ ''; trying fallback...\<newline>'')] @ ev',
                  w''))
          else (None, ev @ [Log (''[error] '' @ msg @ ''\<newline>'')], w')
      | (Inl (OtherException msg), ev, w') \<Rightarrow>
          (None, ev @ [Log (''[error] '' @ msg @ ''\<newline>'')], w'))"

definition base_cmds :: "string list \<Rightarrow> string list list" where
  "base_cmds extra_args =
     [[''./setup''] @ extra_args, [''fish'', ''./setup''] @ extra_args,
      [''sh'', ''./setup''] @ extra_args]"

definition spawn_setup_install ::
  "'w host \<Rightarrow> 'w \<Rightarrow> string \<Rightarrow> string list option \<Rightarrow> bool \<Rightarrow> string list option \<Rightarrow> bool
     \<Rightarrow> proc option \<times> event list \<times> 'w" where
  "spawn_setup_install h w path extra_args capture_stdout auto_input_seq use_pty =
     try_cmds h w (base_cmds (case extra_args of None \<Rightarrow> [] | Some a \<Rightarrow> a))
       path capture_stdout auto_input_seq use_pty"

subsection \<open>The auto-input feeders\<close>

definition hex2 :: "nat \<Rightarrow> string" where
  "hex2 n = [digit_char (n div 16), digit_char (n mod 16)]"

definition repr_char :: "char \<Rightarrow> char \<Rightarrow> string" where
  "repr_char q c =
     (let n = (of_char c :: nat)
      in if c = q \<or> c = CHR 0x5C then [CHR 0x5C, c]
         else if n = 9 then [CHR 0x5C, CHR ''t'']
         else if n = 10 then [CHR 0x5C, CHR ''n'']
         else if n = 13 then [CHR 0x5C, CHR ''r'']
         else if n < 32 \<or> n = 127 \<or> (128 \<le> n \<and> n \<le> 160) \<or> n = 173
           then [CHR 0x5C, CHR ''x''] @ hex2 n
         else [c])"

definition py_repr :: "string \<Rightarrow> string" where
  \<comment> \<open>\<open>repr(s)\<close> of a string\<close>
  "py_repr s =
     (let q = (if CHR 0x27 \<in> set s \<and> CHR 0x22 \<notin> set s then CHR 0x22 else CHR 0x27)
      in [q] @ concat (map (repr_char q) s) @ [q])"

definition fileno :: "'w host \<Rightarrow> 'w \<Rightarrow> nat \<Rightarrow> exn + nat" where
  \<comment> \<open>\<open>pipe.fileno()\<close>: a closed file raises \<open>ValueError\<close>\<close>
  "fileno h w pipe =
     (if pipe_closed h w pipe then Inl (OtherException ''I/O operation on closed file'')
      else Inr (pipe_fd h pipe))"

fun feed_items ::
  "'w host \<Rightarrow> nat option \<Rightarrow> nat option \<Rightarrow> 'w \<Rightarrow> string list \<Rightarrow> event list \<times> 'w" where
  \<comment> \<open>the loop \<open>for item in auto_input_seq\<close> of \<open>_feed\<close>; a \<open>break\<close> ends it early\<close>
  "feed_items h master_fd_local pipe w [] = ([], w)"
| "feed_items h master_fd_local pipe w (item # items) =
     (case master_fd_local of
        Some fd \<Rightarrow>
          (case os_write h w fd (encode_replace h item) of
             (Inl ex, w') \<Rightarrow> ([Log (''[auto-input-error] '' @ exn_str ex @ ''\<newline>'')], w')
           | (Inr _, w') \<Rightarrow>
               (case feed_items h master_fd_local pipe (time_sleep h w' 250) items of
                  (ev, w'') \<Rightarrow>
                    (Wrote fd (encode_replace h item)
                       # Log (''[auto-input] '' @ py_repr item @ ''\<newline>'') # ev,
                     w'')))
      | None \<Rightarrow>
          (case pipe of
             None \<Rightarrow> ([Log ''[auto-input] stdin closed; stopping\<newline>''], w)
           | Some f \<Rightarrow>
               if pipe_closed h w f
               then ([Log ''[auto-input] stdin closed; stopping\<newline>''], w)
               else
                 (case fileno h w f of
                    Inl ex \<Rightarrow> ([Log (''[auto-input-error] '' @ exn_str ex @ ''\<newline>'')], w)
                  | Inr fd \<Rightarrow>
                      (case os_write h w fd (encode_replace h item) of
                         (Inl ex, w') \<Rightarrow>
                           ([Log (''[auto-input-error] '' @ exn_str ex @ ''\<newline>'')], w')
                       | (Inr _, w') \<Rightarrow>
                           (case feed_items h master_fd_local pipe (time_sleep h w' 250) items of
                              (ev, w'') \<Rightarrow>
                                (Wrote fd (encode_replace h item)
                                   # Log (''[auto-input] '' @ py_repr item @ ''\<newline>'') # ev,
                                 w''))))))"

definition send_yesforall ::
  "'w host \<Rightarrow> nat option \<Rightarrow> nat option \<Rightarrow> 'w \<Rightarrow> event list \<times> 'w" where
  \<comment> \<open>the final \<open>try\<close> block, the same in \<open>_feed\<close> and in \<open>_feed_yesforall\<close>\<close>
  "send_yesforall h master_fd_local pipe w =
     (let yesforall = ''yesforall\<newline>'';
          logged = Log (''[auto-input] '' @ py_repr yesforall @ ''\<newline>'')
      in case master_fd_local of
           Some fd \<Rightarrow>
             (case os_write h w fd (encode_replace h yesforall) of
                (Inl ex, w') \<Rightarrow> ([Log (''[auto-input-error] '' @ exn_str ex @ ''\<newline>'')], w')
              | (Inr _, w') \<Rightarrow> ([Wrote fd (encode_replace h yesforall), logged], w'))
         | None \<Rightarrow>
             (case pipe of
                None \<Rightarrow> ([logged], w)
              | Some f \<Rightarrow>
                  (case fileno h w f of
                     Inl ex \<Rightarrow> ([Log (''[auto-input-error] '' @ exn_str ex @ ''\<newline>'')], w)
                   | Inr fd \<Rightarrow>
                       (case os_write h w fd (encode_replace h yesforall) of
                          (Inl ex, w') \<Rightarrow>
                            ([Log (''[auto-input-error] '' @ exn_str ex @ ''\<newline>'')], w')
                        | (Inr _, w') \<Rightarrow>
                            ([Wrote fd (encode_replace h yesforall), logged], w')))))"

definition feed :: "'w host \<Rightarrow> 'w \<Rightarrow> proc \<Rightarrow> string list \<Rightarrow> event list \<times> 'w" where
  \<comment> \<open>\<open>_feed\<close>, the thread started when an input sequence is given\<close>
  "feed h w p auto_input_seq =
     (let master_fd_local = pty_master_fd p;
          pipe = (if master_fd_local = None then stdin p else None)
      in if master_fd_local = None \<and> pipe = None then
           ([Log ''[auto-input] stdin unavailable; aborting auto sequence\<newline>''], w)
         else
           (case feed_items h master_fd_local pipe (time_sleep h w 200) auto_input_seq of
              (ev, w1) \<Rightarrow>
                (case send_yesforall h master_fd_local pipe w1 of
                   (ev', w2) \<Rightarrow> (ev @ ev', w2))))"

definition feed_yesforall :: "'w host \<Rightarrow> 'w \<Rightarrow> proc \<Rightarrow> event list \<times> 'w" where
  \<comment> \<open>\<open>_feed_yesforall\<close>, the thread started when no input sequence is given\<close>
  "feed_yesforall h w p =
     (let w1 = time_sleep h w 300;
          master_fd_local = pty_master_fd p;
          pipe = (if master_fd_local = None then stdin p else None)
      in send_yesforall h master_fd_local pipe w1)"

fun run_feeder :: "'w host \<Rightarrow> 'w \<Rightarrow> proc \<Rightarrow> feeder \<Rightarrow> event list \<times> 'w" where
  "run_feeder h w p (Feed items) = feed h w p items"
| "run_feeder h w p FeedYesforall = feed_yesforall h w p"

subsection \<open>launch\_install\_external\<close>

definition shlex_safe :: "char \<Rightarrow> bool" where
  "shlex_safe c =
     (let n = (of_char c :: nat)
      in (48 \<le> n \<and> n \<le> 57) \<or> (65 \<le> n \<and> n \<le> 90) \<or> (97 \<le> n \<and> n \<le> 122)
         \<or> c \<in> set ''_@%+=:,./-'')"

definition shlex_quote :: "string \<Rightarrow> string" where
  "shlex_quote s =
     (if s = [] then [CHR 0x27, CHR 0x27]
      else if list_all shlex_safe s then s
      else [CHR 0x27]
           @ concat (map (\<lambda>c. if c = CHR 0x27
                               then [CHR 0x27, CHR 0x22, CHR 0x27, CHR 0x22, CHR 0x27]
                               else [c]) s)
           @ [CHR 0x27])"

definition shlex_join :: "string list \<Rightarrow> string" where
  "shlex_join xs = py_join '' '' (map shlex_quote xs)"

definition shutil_which :: "'w host \<Rightarrow> 'w \<Rightarrow> string \<Rightarrow> string option" where
  "shutil_which h w prog = (case which h w prog of Inl _ \<Rightarrow> None | Inr r \<Rightarrow> r)"

definition terminals :: "(string \<times> string list) list" where
  "terminals =
     [(''kitty'', [''kitty'', ''-e'']),
      (''alacritty'', [''alacritty'', ''-e'']),
      (''gnome-terminal'', [''gnome-terminal'', ''--'']),
      (''xterm'', [''xterm'', ''-e'']),
      (''konsole'', [''konsole'', ''-e'']),
      (''foot'', [''foot'', ''sh'', ''-c''])]"

definition terminal_argv :: "string list \<Rightarrow> string \<Rightarrow> string list \<Rightarrow> string list" where
  \<comment> \<open>the value of \<open>full\<close> for one terminal\<close>
  "terminal_argv base path cmd =
     (if base \<noteq> [] \<and> last base = ''-c'' then
        base @ [''cd '' @ shlex_quote path @ '' && '' @ shlex_quote (hd cmd) @ '' ''
                @ py_join '' '' (map shlex_quote (tl cmd))]
      else if base \<noteq> [] \<and> (last base = ''--'' \<or> last base = ''-e'') then
        base @ [''sh'', ''-c'', ''cd '' @ shlex_quote path @ '' && '' @ shlex_join cmd]
      else
        base @ [''sh'', ''-c'', ''cd '' @ shlex_quote path @ '' && '' @ shlex_join cmd])"

fun try_terminals ::
  "'w host \<Rightarrow> 'w \<Rightarrow> (string \<times> string list) list \<Rightarrow> string \<Rightarrow> string list
     \<Rightarrow> bool \<times> event list \<times> 'w" where
  \<comment> \<open>the loop over the terminals; \<open>True\<close> when one was started and the function returned\<close>
  "try_terminals h w [] path cmd = (False, [], w)"
| "try_terminals h w ((name, base) # ts) path cmd =
     (if (case shutil_which h w name of None \<Rightarrow> False | Some found \<Rightarrow> found \<noteq> []) then
        (case popen h w \<lparr>argv = terminal_argv base path cmd, cwd = None,
                          stdin_spec = Inherited, stdout_spec = Inherited,
                          stderr_spec = Inherited, text_mode = False, env = None\<rparr> of
           (Inr _, w') \<Rightarrow> (True, [Exec (terminal_argv base path cmd)], w')
         | (Inl _, w') \<Rightarrow>
             (case try_terminals h w' ts path cmd of
                (r, ev, w'') \<Rightarrow> (r, Exec (terminal_argv base path cmd) # ev, w'')))
      else try_terminals h w ts path cmd)"

definition launch_install_external ::
  "'w host \<Rightarrow> 'w \<Rightarrow> string \<Rightarrow> string list option \<Rightarrow> (exn + unit) \<times> event list \<times> 'w" where
  \<comment> \<open>\<open>Inl\<close>: the exception leaves the function\<close>
  "launch_install_external h w path extra_args =
     (let args = [''install''] @ (case extra_args of None \<Rightarrow> [] | Some a \<Rightarrow> a);
          cmd = [''./setup''] @ args
      in case try_terminals h w terminals path cmd of
           (True, ev, w') \<Rightarrow> (Inr (), ev, w')
         | (False, ev, w') \<Rightarrow>
             (case popen h w' \<lparr>argv = cmd, cwd = Some path, stdin_spec = Inherited,
                                stdout_spec = Inherited, stderr_spec = Inherited,
                                text_mode = False, env = None\<rparr> of
                (Inl ex, w'') \<Rightarrow> (Inl ex, ev @ [Exec cmd], w'')
              | (Inr _, w'') \<Rightarrow> (Inr (), ev @ [Exec cmd], w'')))"

section \<open>Observations and example hosts\<close>

text \<open>What a run wrote to the input transport, and the commands it passed to \<open>Popen\<close>.\<close>

fun written :: "event list \<Rightarrow> (nat \<times> string) list" where
  "written [] = []"
| "written (Wrote fd d # ev) = (fd, d) # written ev"
| "written (_ # ev) = written ev"

fun execs :: "event list \<Rightarrow> string list list" where
  "execs [] = []"
| "execs (Exec c # ev) = c # execs ev"
| "execs (_ # ev) = execs ev"

text \<open>
  \<open>reads h p w ls w'\<close>: from the state \<open>w\<close>, successive calls of \<open>readline\<close> on the
  output of child \<open>p\<close> return the non-empty lines \<open>ls\<close>, in this order, and lead to \<open>w'\<close>.
\<close>

fun reads :: "'w host \<Rightarrow> nat \<Rightarrow> 'w \<Rightarrow> string list \<Rightarrow> 'w \<Rightarrow> bool" where
  "reads h p w [] w' = (w' = w)"
| "reads h p w (l # ls) w' =
     (l \<noteq> [] \<and> fst (stdout_readline h w p) = Inr l \<and>
      reads h p (snd (stdout_readline h w p)) ls w')"

text \<open>
  A repository three commits behind \<open>origin/main\<close> with two changed files, whose remote
  cannot be reached; the world state counts the commands run. The directory \<open>/plain\<close>
  exists and is no repository. In \<open>example_detached\<close> neither the branch nor an
  upstream can be resolved.
\<close>

definition example_repo :: "nat platform" where
  "example_repo =
     \<lparr>isdir = (\<lambda>w p. p = ''/plain'' \<or> p = ''/repo'' \<or> p = ''/repo/.git''),
      subprocess_run = (\<lambda>w argv cwd t.
        (if argv = [''git'', ''fetch'', ''--all'', ''--prune'']
           then Inr (128, [], ''fatal: unable to access remote\<newline>'')
         else if argv = [''git'', ''rev-parse'', ''--abbrev-ref'', ''HEAD'']
           then Inr (0, ''main\<newline>'', [])
         else if argv = [''git'', ''rev-parse'', ''--abbrev-ref'', ''--symbolic-full-name'',
                         CHR ''@'' # ''{u}'']
           then Inr (0, ''origin/main\<newline>'', [])
         else if argv = [''git'', ''rev-list'', ''--count'', ''HEAD..origin/main'']
           then Inr (0, ''3\<newline>'', [])
         else if argv = [''git'', ''rev-list'', ''--count'', ''origin/main..HEAD'']
           then Inl ''timed out''
         else if argv = [''git'', ''status'', ''--porcelain'']
           then Inr (0, '' M a.txt\<newline>?? b.txt\<newline>'', [])
         else Inl ''unexpected command'', Suc w)),
      int_max_str_digits = 4300\<rparr>"

definition example_offline :: "nat platform" where
  \<comment> \<open>the same repository when the fetch runs into the timeout\<close>
  "example_offline =
     example_repo\<lparr>subprocess_run := (\<lambda>w argv cwd t.
        if argv = [''git'', ''fetch'', ''--all'', ''--prune'']
        then (Inl ''timed out after 15 seconds'', Suc w)
        else subprocess_run example_repo w argv cwd t)\<rparr>"

definition example_detached :: "nat platform" where
  "example_detached =
     example_repo\<lparr>subprocess_run := (\<lambda>w argv cwd t.
        (if argv = [''git'', ''status'', ''--porcelain''] then Inr (0, [], [])
         else Inr (128, [], ''fatal: no upstream\<newline>''), Suc w))\<rparr>"

text \<open>
  A host on which every operation succeeds: a child with number 7 whose output is the two
  lines \<open>one\<close> and \<open>two\<close> (read in the states 1 and 2), exit status 3, a pseudo-terminal
  with descriptors 3 and 4, a pipe with descriptor 5, and no terminal emulator installed.
\<close>

definition example_host :: "nat host" where
  "example_host =
     \<lparr>environ = (\<lambda>w. [(''TERM'', []), (''NO_COLOR'', ''1'')]),
      popen = (\<lambda>w c. (Inr 7, Suc w)),
      stdout_readline = (\<lambda>w p.
        (if w = 1 then Inr ''one\<newline>'' else if w = 2 then Inr ''two\<newline>'' else Inr [],
         Suc w)),
      stdout_close = (\<lambda>w p. w),
      proc_wait = (\<lambda>w p. (3, w)),
      decode_replace = (\<lambda>s. s),
      encode_replace = (\<lambda>s. s),
      openpty = (\<lambda>w. (Inr (3, 4), w)),
      os_close = (\<lambda>w fd. w),
      fdopen = (\<lambda>w fd. (Inr (), w)),
      thread_start = (\<lambda>w. (Inr (), w)),
      os_write = (\<lambda>w fd d. (Inr (length d), Suc w)),
      time_sleep = (\<lambda>w ms. w),
      pipe_closed = (\<lambda>w f. False),
      pipe_fd = (\<lambda>f. 5),
      which = (\<lambda>w n. Inr None)\<rparr>"

text \<open>The same host without the program to run: every \<open>Popen\<close> raises \<open>ENOENT\<close>.\<close>

definition failing_host :: "nat host" where
  "failing_host =
     example_host\<lparr>popen := (\<lambda>w c.
       (Inl (OSError (Some 2) ''[Errno 2] No such file or directory''), w))\<rparr>"

text \<open>A host on which no command can be executed: every \<open>Popen\<close> raises \<open>ENOEXEC\<close>.\<close>

definition noexec_host :: "nat host" where
  "noexec_host =
     example_host\<lparr>popen := (\<lambda>w c.
       (Inl (OSError (Some 8) ''[Errno 8] Exec format error''), Suc w))\<rparr>"

text \<open>
  Two hosts on which \<open>./setup\<close> cannot be executed as it is (\<open>ENOEXEC\<close>): one without
  \<open>fish\<close> (\<open>ENOENT\<close>), where \<open>sh\<close> would run the script; and one on which \<open>fish\<close> cannot
  be executed either and \<open>sh\<close> may not be (\<open>EACCES\<close>).
\<close>

definition nofish_host :: "nat host" where
  "nofish_host =
     example_host\<lparr>popen := (\<lambda>w c.
       (if hd (argv c) = ''./setup'' then Inl (OSError (Some 8) ''[Errno 8] Exec format error'')
        else if hd (argv c) = ''fish''
          then Inl (OSError (Some 2) ''[Errno 2] No such file or directory'')
        else Inr 7, Suc w))\<rparr>"

definition nosh_host :: "nat host" where
  "nosh_host =
     example_host\<lparr>popen := (\<lambda>w c.
       (if hd (argv c) = ''sh'' then Inl (OSError (Some 13) ''[Errno 13] Permission denied'')
        else Inl (OSError (Some 8) ''[Errno 8] Exec format error''), Suc w))\<rparr>"

text \<open>
  Two hosts for the launcher: one on which probing for a program raises, one with an
  \<open>xterm\<close> that cannot be started.
\<close>

definition probe_failing_host :: "nat host" where
  "probe_failing_host = example_host\<lparr>which := (\<lambda>w n. Inl (OtherException ''probe failed''))\<rparr>"

definition broken_terminal_host :: "nat host" where
  "broken_terminal_host =
     example_host\<lparr>which := (\<lambda>w n. Inr (if n = ''xterm'' then Some ''/usr/bin/xterm'' else None)),
                  popen := (\<lambda>w c.
                    (if cwd c = None
                     then Inl (OSError (Some 13) ''[Errno 13] Permission denied'')
                     else Inr 7, Suc w))\<rparr>"

text \<open>
  A host with an \<open>xterm\<close> that cannot be started and no \<open>./setup\<close> to run in the
  repository.
\<close>

definition no_start_host :: "nat host" where
  "no_start_host =
     broken_terminal_host\<lparr>popen := (\<lambda>w c.
       (if cwd c = None
        then Inl (OSError (Some 13) ''[Errno 13] Permission denied'')
        else Inl (OSError (Some 2) ''[Errno 2] No such file or directory''), Suc w))\<rparr>"

text \<open>
  Two hosts for the feeder: one whose pipe reports closed once something was written,
  and one whose pseudo-terminal raises on every write after the first.
\<close>

definition closing_host :: "nat host" where
  "closing_host = example_host\<lparr>pipe_closed := (\<lambda>w f. 1 \<le> w)\<rparr>"

definition hangup_host :: "nat host" where
  "hangup_host =
     example_host\<lparr>os_write := (\<lambda>w fd d.
       (if w < 2 then Inr (length d) else Inl (OSError (Some 5) ''[Errno 5] Input/output error''),
        Suc w))\<rparr>"

text \<open>A host on which the second \<open>os.write\<close> raises and every other write succeeds.\<close>

definition glitch_host :: "nat host" where
  "glitch_host =
     example_host\<lparr>os_write := (\<lambda>w fd d.
       (if w = 1 then Inl (OSError (Some 5) ''[Errno 5] Input/output error'') else Inr (length d),
        Suc w))\<rparr>"

section \<open>Properties of the repository status\<close>

text \<open>
  C10. For every repository status, \<open>has_updates\<close> is true exactly when \<open>ok\<close> is true
  and \<open>behind\<close> is positive.
\<close>

theorem has_updates_iff: "has_updates s \<longleftrightarrow> (ok s \<and> 0 < behind s)"
  by (simp add: has_updates_def)

text \<open>
  C8. A path that is no directory gives \<open>ok = False\<close> with the error
  \<open>Repository path not found\<close>; a directory without a \<open>.git\<close> directory gives
  \<open>ok = False\<close> with the error \<open>Not a git repository\<close>. In both cases \<open>behind\<close>,
  \<open>ahead\<close> and \<open>dirty\<close> are zero and \<open>branch\<close> and \<open>upstream\<close> are absent.
\<close>

theorem check_repo_status_invalid:
  "(\<not> isdir sys w path \<longrightarrow>
      (let r = fst (check_repo_status sys w path)
       in \<not> ok r \<and> error r = Some ''Repository path not found'' \<and>
          behind r = 0 \<and> ahead r = 0 \<and> dirty r = 0 \<and>
          branch r = None \<and> upstream r = None)) \<and>
   (isdir sys w path \<and> \<not> isdir sys w (os_path_join path ''.git'') \<longrightarrow>
      (let r = fst (check_repo_status sys w path)
       in \<not> ok r \<and> error r = Some ''Not a git repository'' \<and>
          behind r = 0 \<and> ahead r = 0 \<and> dirty r = 0 \<and>
          branch r = None \<and> upstream r = None))"
  by (simp add: check_repo_status_def)

theorem check_repo_status_invalid_witness:
  "\<not> isdir example_repo 0 ''/none'' \<and>
   \<not> ok (fst (check_repo_status example_repo 0 ''/none'')) \<and>
   error (fst (check_repo_status example_repo 0 ''/none''))
     = Some ''Repository path not found'' \<and>
   isdir example_repo 0 ''/plain'' \<and>
   \<not> isdir example_repo 0 (os_path_join ''/plain'' ''.git'') \<and>
   \<not> ok (fst (check_repo_status example_repo 0 ''/plain'')) \<and>
   error (fst (check_repo_status example_repo 0 ''/plain'')) = Some ''Not a git repository''"
  using check_repo_status_invalid [of example_repo 0 "''/none''"]
        check_repo_status_invalid [of example_repo 0 "''/plain''"]
  by (simp add: example_repo_def os_path_join_def Let_def)

lemma fetch_failure_fields:
  assumes "isdir sys w path" and "isdir sys w (os_path_join path ''.git'')"
    and "run_git sys w [''fetch'', ''--all'', ''--prune''] path 15 = ((rc, out, err), w1)"
    and "rc \<noteq> 0"
  shows
    "let r = fst (check_repo_status sys w path);
         count = (\<lambda>(rc, out, e).
                    if rc = 0
                    then (case py_int (int_max_str_digits sys)
                                 (if py_strip out \<noteq> [] then py_strip out else ''0'') of
                            Some n \<Rightarrow> n
                          | None \<Rightarrow> 0)
                    else (0 :: int));
         (br, w2) = get_branch sys w1 path;
         (up, w3) = get_upstream sys w2 path br;
         u = (case up of Some u \<Rightarrow> u | None \<Rightarrow> []);
         (qb, w4) = run_git sys w3 [''rev-list'', ''--count'', ''HEAD..'' @ u] path 15;
         (qa, w5) = run_git sys w4 [''rev-list'', ''--count'', u @ ''..HEAD''] path 15;
         (d, w6) = get_dirty_count sys (if u \<noteq> [] then w5 else w3) path
     in ok r \<and> error r = None \<and>
        fetch_error r = Some (py_strip (if err \<noteq> [] then err else ''fetch failed'')) \<and>
        branch r = br \<and> upstream r = up \<and>
        behind r = (if u \<noteq> [] then count qb else 0) \<and>
        ahead r = (if u \<noteq> [] then count qa else 0) \<and>
        dirty r = d"
proof -
  obtain br w2 where br: "get_branch sys w1 path = (br, w2)"
    by (cases "get_branch sys w1 path")
  obtain up w3 where up: "get_upstream sys w2 path br = (up, w3)"
    by (cases "get_upstream sys w2 path br")
  define u where "u = (case up of Some u \<Rightarrow> u | None \<Rightarrow> [])"
  obtain qb w4 where qb:
    "run_git sys w3 [''rev-list'', ''--count'', ''HEAD..'' @ u] path 15 = (qb, w4)"
    by (cases "run_git sys w3 [''rev-list'', ''--count'', ''HEAD..'' @ u] path 15")
  obtain qa w5 where qa:
    "run_git sys w4 [''rev-list'', ''--count'', u @ ''..HEAD''] path 15 = (qa, w5)"
    by (cases "run_git sys w4 [''rev-list'', ''--count'', u @ ''..HEAD''] path 15")
  obtain d w6 where d: "get_dirty_count sys (if u \<noteq> [] then w5 else w3) path = (d, w6)"
    by (cases "get_dirty_count sys (if u \<noteq> [] then w5 else w3) path")
  show ?thesis
  proof (cases up)
    case None
    with assms br up qb qa d u_def show ?thesis
      by (simp add: check_repo_status_def Let_def)
  next
    case (Some v)
    with assms br up qb qa d u_def show ?thesis
      by (cases qb; cases qa; cases "v = []") (simp_all add: check_repo_status_def Let_def)
  qed
qed

text \<open>
  C2. In a directory with a \<open>.git\<close> directory, when the fetch fails, by a non-zero exit
  status or by an exception of \<open>subprocess.run\<close>, the status has \<open>ok = True\<close> and no
  \<open>error\<close>, \<open>fetch_error\<close> holds the stripped error output or exception text (or
  \<open>fetch failed\<close> when that is empty), and \<open>branch\<close>, \<open>upstream\<close>, \<open>behind\<close>,
  \<open>ahead\<close> and \<open>dirty\<close> are what the remaining queries give, run one after the other
  from the state \<open>w1\<close> the fetch left.
\<close>

theorem fetch_failure_partial_degradation:
  assumes "isdir sys w path" and "isdir sys w (os_path_join path ''.git'')"
    and "subprocess_run sys w [''git'', ''fetch'', ''--all'', ''--prune''] path 15 = (res, w1)"
    and "case res of Inl exc \<Rightarrow> True | Inr (rc, out, err) \<Rightarrow> rc \<noteq> 0"
  shows
    "let r = fst (check_repo_status sys w path);
         message = (case res of Inl exc \<Rightarrow> exc | Inr (rc, out, err) \<Rightarrow> err);
         count = (\<lambda>(rc, out, e).
                    if rc = 0
                    then (case py_int (int_max_str_digits sys)
                                 (if py_strip out \<noteq> [] then py_strip out else ''0'') of
                            Some n \<Rightarrow> n
                          | None \<Rightarrow> 0)
                    else (0 :: int));
         (br, w2) = get_branch sys w1 path;
         (up, w3) = get_upstream sys w2 path br;
         u = (case up of Some u \<Rightarrow> u | None \<Rightarrow> []);
         (qb, w4) = run_git sys w3 [''rev-list'', ''--count'', ''HEAD..'' @ u] path 15;
         (qa, w5) = run_git sys w4 [''rev-list'', ''--count'', u @ ''..HEAD''] path 15;
         (d, w6) = get_dirty_count sys (if u \<noteq> [] then w5 else w3) path
     in ok r \<and> error r = None \<and>
        fetch_error r = Some (py_strip (if message \<noteq> [] then message else ''fetch failed'')) \<and>
        branch r = br \<and> upstream r = up \<and>
        behind r = (if u \<noteq> [] then count qb else 0) \<and>
        ahead r = (if u \<noteq> [] then count qa else 0) \<and>
        dirty r = d"
proof (cases res)
  case (Inl exc)
  with assms(3) have "run_git sys w [''fetch'', ''--all'', ''--prune''] path 15
                        = ((1, [], exc), w1)"
    by (simp add: run_git_def)
  from fetch_failure_fields [OF assms(1,2) this] Inl show ?thesis by simp
next
  case (Inr cp)
  obtain rc out err where cp: "cp = (rc, out, err)" by (cases cp)
  with Inr assms(3) have "run_git sys w [''fetch'', ''--all'', ''--prune''] path 15
                            = ((rc, out, err), w1)"
    by (simp add: run_git_def)
  moreover from Inr cp assms(4) have "rc \<noteq> 0" by simp
  ultimately show ?thesis
    using fetch_failure_fields [OF assms(1,2)] Inr cp by simp
qed

theorem fetch_failure_partial_degradation_witness:
  "(let r = fst (check_repo_status example_repo 0 ''/repo'')
    in ok r \<and> error r = None \<and> fetch_error r = Some ''fatal: unable to access remote'' \<and>
       branch r = Some ''main'' \<and> upstream r = Some ''origin/main'' \<and>
       behind r = 3 \<and> ahead r = 0 \<and> dirty r = 2) \<and>
   (let r = fst (check_repo_status example_offline 0 ''/repo'')
    in ok r \<and> error r = None \<and> fetch_error r = Some ''timed out after 15 seconds'' \<and>
       branch r = Some ''main'' \<and> upstream r = Some ''origin/main'' \<and>
       behind r = 3 \<and> ahead r = 0 \<and> dirty r = 2)"
  using fetch_failure_partial_degradation
          [of example_repo 0 "''/repo''"
              "Inr (128, [], ''fatal: unable to access remote\<newline>'')" 1]
        fetch_failure_partial_degradation
          [of example_offline 0 "''/repo''" "Inl ''timed out after 15 seconds''" 1]
  by (simp add: example_repo_def example_offline_def os_path_join_def Let_def run_git_def
        get_branch_def get_upstream_def get_dirty_count_def py_splitlines_def py_islinebreak_def
        py_strip_def py_isspace_def py_int_def int_literal_def py_isdigit_def digit_val_def)

subsection \<open>Integers printed and read back\<close>

text \<open>
  The model of \<open>int\<close> reads the decimal numeral of a natural number, also when
  white space follows it, as that number.
\<close>

lemma digit_char_code: "d < 10 \<Longrightarrow> (of_char (digit_char d) :: nat) = 48 + d"
proof -
  assume "d < 10"
  then have "d \<in> {0, 1, 2, 3, 4, 5, 6, 7, 8, 9}" by auto
  then show ?thesis by (auto simp: digit_char_def)
qed

lemma digit_char_digit: "d < 10 \<Longrightarrow> py_isdigit (digit_char d) \<and> digit_val (digit_char d) = int d"
  by (simp add: py_isdigit_def digit_val_def digit_char_code)

lemma decimal_digits: "\<forall>c \<in> set (decimal n). py_isdigit c"
proof (induction n rule: decimal.induct)
  case (1 n)
  show ?case
  proof (cases "n < 10")
    case True
    then show ?thesis by (subst decimal.simps) (simp add: digit_char_digit)
  next
    case False
    with 1 show ?thesis by (subst decimal.simps) (simp add: digit_char_digit)
  qed
qed

lemma decimal_nonempty: "decimal n \<noteq> []"
  by (subst decimal.simps) simp

lemma decimal_value: "foldl (\<lambda>a c. a * 10 + digit_val c) 0 (decimal n) = int n"
proof (induction n rule: decimal.induct)
  case (1 n)
  show ?case
  proof (cases "n < 10")
    case True
    then show ?thesis by (subst decimal.simps) (simp add: digit_char_digit)
  next
    case False
    with 1 have "foldl (\<lambda>a c. a * 10 + digit_val c) 0 (decimal (n div 10)) = int (n div 10)"
      by simp
    with False show ?thesis
      by (subst decimal.simps) (simp add: digit_char_digit, presburger)
  qed
qed

lemma int_digits_all_digits:
  "\<forall>c \<in> set ds. py_isdigit c \<Longrightarrow>
   int_digits acc k ds = Some (foldl (\<lambda>a c. a * 10 + digit_val c) acc ds, k + length ds)"
  by (induction ds arbitrary: acc k) simp_all

lemma int_literal_decimal: "int_literal (decimal n) = Some (int n, length (decimal n))"
proof (cases "decimal n")
  case Nil
  with decimal_nonempty show ?thesis by simp
next
  case (Cons c cs)
  with decimal_digits [of n] have d: "py_isdigit c" "\<forall>x \<in> set cs. py_isdigit x" by simp_all
  from decimal_value [of n] Cons
  have "foldl (\<lambda>a c. a * 10 + digit_val c) (digit_val c) cs = int n" by simp
  with d Cons show ?thesis
    by (simp add: int_literal_def int_digits_all_digits)
qed

lemma digit_not_space: "py_isdigit c \<Longrightarrow> \<not> py_isspace c"
  by (auto simp: py_isdigit_def py_isspace_def Let_def)

lemma py_strip_digits:
  assumes "ds \<noteq> []" "\<forall>c \<in> set ds. py_isdigit c" "\<forall>c \<in> set ws. py_isspace c"
  shows "py_strip (ds @ ws) = ds"
proof -
  from assms(1,2) have h: "\<not> py_isspace (hd ds)" "\<not> py_isspace (last ds)"
    by (simp_all add: digit_not_space)
  from assms(1) h(1) have 1: "dropWhile py_isspace (ds @ ws) = ds @ ws"
    by (cases ds) simp_all
  from assms(3) have 2: "dropWhile py_isspace (rev ws) = []" by simp
  from assms(1) h(2) have 3: "dropWhile py_isspace (rev ds) = rev ds"
    by (cases ds rule: rev_cases) simp_all
  show ?thesis
    unfolding py_strip_def 1 by (simp add: dropWhile_append 2 3 assms(3))
qed

lemma py_int_decimal:
  assumes "\<forall>c \<in> set ws. py_isspace c"
  shows "py_int lim (decimal n @ ws)
           = (if 0 < lim \<and> lim < length (decimal n) then None else Some (int n))"
proof -
  have s: "py_strip (decimal n @ ws) = decimal n"
    using decimal_nonempty decimal_digits assms by (rule py_strip_digits)
  obtain c cs where c: "decimal n = c # cs" using decimal_nonempty by (cases "decimal n") auto
  with decimal_digits [of n] have "py_isdigit c" by simp
  then have "c \<noteq> CHR ''-''" "c \<noteq> CHR ''+''" by (auto simp: py_isdigit_def)
  with c int_literal_decimal [of n] show ?thesis
    unfolding py_int_def s Let_def by simp
qed


lemma count_of_decimal_output:
  "(if py_strip (decimal n @ ''\<newline>'') \<noteq> [] then py_strip (decimal n @ ''\<newline>'') else ''0'')
     = decimal n \<and>
   py_int lim (decimal n)
     = (if 0 < lim \<and> lim < length (decimal n) then None else Some (int n))"
proof -
  have "\<forall>c \<in> set ''\<newline>''. py_isspace c" by (simp add: py_isspace_def)
  with decimal_nonempty decimal_digits have "py_strip (decimal n @ ''\<newline>'') = decimal n"
    by (rule py_strip_digits)
  moreover from py_int_decimal [of "[]" lim n]
  have "py_int lim (decimal n)
     = (if 0 < lim \<and> lim < length (decimal n) then None else Some (int n))" by simp
  ultimately show ?thesis using decimal_nonempty [of n] by simp
qed

subsection \<open>The commit counts\<close>

lemma behind_ahead_queries:
  assumes "isdir sys w path" and "isdir sys w (os_path_join path ''.git'')"
    and "run_git sys w [''fetch'', ''--all'', ''--prune''] path 15 = (f, w1)"
    and "get_branch sys w1 path = (br, w2)"
    and "get_upstream sys w2 path br = (up, w3)"
  shows
    "let r = fst (check_repo_status sys w path);
         count = (\<lambda>(rc, out, e).
                    if rc = 0
                    then (case py_int (int_max_str_digits sys)
                                 (if py_strip out \<noteq> [] then py_strip out else ''0'') of
                            Some n \<Rightarrow> n
                          | None \<Rightarrow> 0)
                    else (0 :: int))
     in upstream r = up \<and>
        (\<forall>u. up = Some u \<and> u \<noteq> [] \<longrightarrow>
           (let (qb, w4) = run_git sys w3 [''rev-list'', ''--count'', ''HEAD..'' @ u] path 15;
                (qa, w5) = run_git sys w4 [''rev-list'', ''--count'', u @ ''..HEAD''] path 15
            in behind r = count qb \<and> ahead r = count qa)) \<and>
        (up = None \<or> up = Some [] \<longrightarrow>
           behind r = 0 \<and> ahead r = 0 \<and> \<not> has_updates r)"
proof (cases "up = None \<or> up = Some []")
  case True
  obtain d w6 where d: "get_dirty_count sys w3 path = (d, w6)"
    by (cases "get_dirty_count sys w3 path")
  from True show ?thesis
  proof
    assume "up = None"
    with assms d show ?thesis
      by (cases f) (simp add: check_repo_status_def has_updates_def Let_def)
  next
    assume "up = Some []"
    with assms d show ?thesis
      by (cases f) (simp add: check_repo_status_def has_updates_def Let_def)
  qed
next
  case False
  then obtain u where u: "up = Some u" "u \<noteq> []" by (cases up) auto
  obtain qb w4 where qb:
    "run_git sys w3 [''rev-list'', ''--count'', ''HEAD..'' @ u] path 15 = (qb, w4)"
    by (cases "run_git sys w3 [''rev-list'', ''--count'', ''HEAD..'' @ u] path 15")
  obtain qa w5 where qa:
    "run_git sys w4 [''rev-list'', ''--count'', u @ ''..HEAD''] path 15 = (qa, w5)"
    by (cases "run_git sys w4 [''rev-list'', ''--count'', u @ ''..HEAD''] path 15")
  obtain d w6 where d: "get_dirty_count sys w5 path = (d, w6)"
    by (cases "get_dirty_count sys w5 path")
  from assms u qb qa d show ?thesis
    by (cases f; cases qb; cases qa) (simp add: check_repo_status_def Let_def)
qed

text \<open>
  C3. In a valid repository, let \<open>up\<close> be the upstream that \<open>get_upstream\<close> resolves.
  When \<open>up\<close> is a non-empty name \<open>u\<close>, \<open>behind\<close> is the count of the query
  \<open>rev-list --count HEAD..u\<close> and \<open>ahead\<close> the count of the query
  \<open>rev-list --count u..HEAD\<close>, run after it; the count of a query is the integer its
  stripped output denotes, and 0 when the query fails or its output is no integer. When
  no upstream is resolved, \<open>behind\<close> and \<open>ahead\<close> are 0 and \<open>has_updates\<close> is false.
  The count of a successful query that prints the number \<open>n\<close> in decimal and a newline
  is \<open>n\<close> (unless the numeral is longer than the interpreter's limit on digits).
\<close>

theorem behind_ahead_counts:
  assumes "isdir sys w path" and "isdir sys w (os_path_join path ''.git'')"
    and "run_git sys w [''fetch'', ''--all'', ''--prune''] path 15 = (f, w1)"
    and "get_branch sys w1 path = (br, w2)"
    and "get_upstream sys w2 path br = (up, w3)"
  shows
    "let r = fst (check_repo_status sys w path);
         count = (\<lambda>(rc, out, e).
                    if rc = 0
                    then (case py_int (int_max_str_digits sys)
                                 (if py_strip out \<noteq> [] then py_strip out else ''0'') of
                            Some n \<Rightarrow> n
                          | None \<Rightarrow> 0)
                    else (0 :: int))
     in upstream r = up \<and>
        (\<forall>u. up = Some u \<and> u \<noteq> [] \<longrightarrow>
           (let (qb, w4) = run_git sys w3 [''rev-list'', ''--count'', ''HEAD..'' @ u] path 15;
                (qa, w5) = run_git sys w4 [''rev-list'', ''--count'', u @ ''..HEAD''] path 15
            in behind r = count qb \<and> ahead r = count qa)) \<and>
        (up = None \<or> up = Some [] \<longrightarrow>
           behind r = 0 \<and> ahead r = 0 \<and> \<not> has_updates r) \<and>
        count (0, decimal n @ ''\<newline>'', e)
          = (if 0 < int_max_str_digits sys \<and> int_max_str_digits sys < length (decimal n)
             then 0 else int n)"
  using behind_ahead_queries [OF assms] count_of_decimal_output [of n "int_max_str_digits sys"]
  by (simp add: Let_def)

theorem behind_ahead_counts_witness:
  "(let r = fst (check_repo_status example_repo 0 ''/repo'')
    in upstream r = Some ''origin/main'' \<and> behind r = 3 \<and> ahead r = 0) \<and>
   (let r = fst (check_repo_status example_detached 0 ''/repo'')
    in upstream r = None \<and> behind r = 0 \<and> ahead r = 0 \<and> \<not> has_updates r)"
  using behind_ahead_counts
          [of example_repo 0 "''/repo''" "(128, [], ''fatal: unable to access remote\<newline>'')" 1
              "Some ''main''" 2 "Some ''origin/main''" 3 3 "[]"]
        behind_ahead_counts
          [of example_detached 0 "''/repo''" "(128, [], ''fatal: no upstream\<newline>'')" 1
              None 2 None 3 0 "[]"]
  by (simp add: example_repo_def example_detached_def os_path_join_def Let_def run_git_def
        get_branch_def get_upstream_def py_strip_def py_isspace_def py_int_def int_literal_def
        py_isdigit_def digit_val_def has_updates_def get_dirty_count_def py_splitlines_def)

section \<open>Properties of the line-streaming runner\<close>

lemma read_loop_reads:
  "reads h p w ls w' \<Longrightarrow>
   read_loop h p text w acc
     = read_loop h p text w' (acc @ map (\<lambda>l. if text then l else decode_replace h l) ls)"
proof (induction ls arbitrary: w acc)
  case Nil
  then show ?case by simp
next
  case (Cons l ls)
  obtain r w1 where r: "stdout_readline h w p = (r, w1)" by (cases "stdout_readline h w p")
  with Cons.prems have l: "r = Inr l" "l \<noteq> []" and rest: "reads h p w1 ls w'" by simp_all
  have "read_loop h p text w acc
          = read_loop h p text w1 (acc @ [if text then l else decode_replace h l])"
    using r l by (subst read_loop.simps) simp
  also have "\<dots> = read_loop h p text w'
      ((acc @ [if text then l else decode_replace h l])
         @ map (\<lambda>l. if text then l else decode_replace h l) ls)"
    by (rule Cons.IH [OF rest])
  finally show ?case by simp
qed

lemma read_loop_eof:
  "stdout_readline h w p = (Inr [], w') \<Longrightarrow> read_loop h p text w acc = Some (acc, w')"
  by (subst read_loop.simps) simp

lemma read_loop_error:
  "stdout_readline h w p = (Inl ex, w') \<Longrightarrow>
   read_loop h p text w acc = Some (acc @ [''[stream error] '' @ exn_str ex @ ''\<newline>''], w')"
  by (subst read_loop.simps) simp

text \<open>
  C1 (amended). When the spawn fails, the only line delivered is
  \<open>[error] failed to spawn: \<close> followed by the message, no line \<open>[exit ...]\<close> is
  delivered, and the call returns 1. When the spawn succeeds and the child's output is
  the lines \<open>ls\<close> followed by the end of the stream or by a read error, the lines
  delivered are \<open>ls\<close> in the order read (decoded in binary mode), then one
  \<open>[stream error]\<close> line if reading raised, then, last and once, the line
  \<open>[exit rc]\<close> where \<open>rc\<close> is the exit status the call returns.
\<close>

theorem stream_process_lines_delivery:
  "(let call = \<lparr>argv = cmd, cwd = dir, stdin_spec = Inherited, stdout_spec = PIPE,
                 stderr_spec = STDOUT, text_mode = as_text, env = e\<rparr>;
        deliver = (\<lambda>l. if as_text then l else decode_replace h l)
    in
    (popen h w call = (Inl ex, w_fail) \<longrightarrow>
       stream_process_lines h w cmd dir e as_text
         = Some (1, [''[error] failed to spawn: '' @ exn_str ex @ ''\<newline>''], w_fail)) \<and>
    (popen h w call = (Inr p, w_spawn) \<and> reads h p w_spawn ls w_read \<and>
     stdout_readline h w_read p = (r, w_end) \<and> (case r of Inl _ \<Rightarrow> True | Inr l \<Rightarrow> l = []) \<and>
     proc_wait h (stdout_close h w_end p) p = (rc, w_exit) \<longrightarrow>
       stream_process_lines h w cmd dir e as_text
         = Some (rc,
                 map deliver ls
                   @ (case r of
                        Inl err \<Rightarrow> [''[stream error] '' @ exn_str err @ ''\<newline>'']
                      | Inr _ \<Rightarrow> [])
                   @ [''[exit '' @ py_str_int rc @ '']\<newline>''],
                 w_exit)))"
proof -
  let ?call = "\<lparr>argv = cmd, cwd = dir, stdin_spec = Inherited, stdout_spec = PIPE,
                 stderr_spec = STDOUT, text_mode = as_text, env = e\<rparr>"
  let ?deliver = "\<lambda>l. if as_text then l else decode_replace h l"
  have fail: "stream_process_lines h w cmd dir e as_text
         = Some (1, [''[error] failed to spawn: '' @ exn_str ex @ ''\<newline>''], w_fail)"
    if "popen h w ?call = (Inl ex, w_fail)"
    using that by (simp add: stream_process_lines_def)
  have run: "stream_process_lines h w cmd dir e as_text
         = Some (rc,
                 map ?deliver ls
                   @ (case r of
                        Inl err \<Rightarrow> [''[stream error] '' @ exn_str err @ ''\<newline>'']
                      | Inr _ \<Rightarrow> [])
                   @ [''[exit '' @ py_str_int rc @ '']\<newline>''],
                 w_exit)"
    if a: "popen h w ?call = (Inr p, w_spawn)" "reads h p w_spawn ls w_read"
      "stdout_readline h w_read p = (r, w_end)" "case r of Inl _ \<Rightarrow> True | Inr l \<Rightarrow> l = []"
      "proc_wait h (stdout_close h w_end p) p = (rc, w_exit)"
  proof -
    have "read_loop h p as_text w_spawn []
      = Some (map ?deliver ls
                @ (case r of
                     Inl err \<Rightarrow> [''[stream error] '' @ exn_str err @ ''\<newline>'']
                   | Inr _ \<Rightarrow> []), w_end)"
      using a(3,4)
      by (cases r) (simp_all add: read_loop_reads [OF a(2)] read_loop_eof read_loop_error)
    with a(1,5) show ?thesis
      by (simp add: stream_process_lines_def)
  qed
  from fail run show ?thesis
    unfolding Let_def by blast
qed

theorem stream_process_lines_delivery_witness:
  "stream_process_lines example_host 0 [''make''] None None True
     = Some (3, [''one\<newline>'', ''two\<newline>'', ''[exit 3]\<newline>''], 4) \<and>
   stream_process_lines failing_host 0 [''make''] None None True
     = Some (1, [''[error] failed to spawn: [Errno 2] No such file or directory\<newline>''], 0)"
  using stream_process_lines_delivery
          [where h = example_host and w = 0 and cmd = "[''make'']" and dir = None and e = None
             and as_text = True and p = 7 and w_spawn = 1 and ls = "[''one\<newline>'', ''two\<newline>'']"
             and w_read = 3 and r = "Inr []" and w_end = 4 and rc = 3 and w_exit = 4]
        stream_process_lines_delivery
          [where h = failing_host and w = 0 and cmd = "[''make'']" and dir = None and e = None
             and as_text = True and ex = "OSError (Some 2) ''[Errno 2] No such file or directory''"
             and w_fail = 0]
  by (simp add: Let_def example_host_def failing_host_def py_str_int_def decimal.simps
        digit_char_def)

text \<open>
  C1 as stated fails when the spawn fails: on a host where \<open>Popen\<close> raises, the
  call returns 1 and the single line delivered is the error line, not \<open>[exit 1]\<close>.
\<close>

theorem stream_spawn_failure_without_sentinel:
  "stream_process_lines failing_host 0 [''./setup''] None None True
     = Some (1, [''[error] failed to spawn: [Errno 2] No such file or directory\<newline>''], 0) \<and>
   last [''[error] failed to spawn: [Errno 2] No such file or directory\<newline>'']
     \<noteq> ''[exit '' @ py_str_int 1 @ '']\<newline>''"
  by (simp add: stream_process_lines_def failing_host_def example_host_def py_str_int_def
        decimal.simps digit_char_def)

section \<open>Properties of the pseudo-terminal line reader\<close>

lemma py_split1_fresh:
  "CHR 0x0A \<notin> set b \<Longrightarrow> py_split1 (b @ [CHR 0x0A]) = (b, [])"
  by (simp add: py_split1_def takeWhile_append dropWhile_append)

lemma readline_skip_empty:
  "readline pty_read1 \<lparr>stream = ([] # cs, e), buffer = b\<rparr>
     = readline pty_read1 \<lparr>stream = (cs, e), buffer = b\<rparr>"
  by (simp add: readline.simps [of pty_read1 "\<lparr>stream = ([] # cs, e), buffer = b\<rparr>"]
        readline.simps [of pty_read1 "\<lparr>stream = (cs, e), buffer = b\<rparr>"]
      split: option.splits prod.splits sum.splits)

text \<open>
  Whatever the chunks \<open>cs\<close> the characters arrive in, \<open>readline\<close> depends on their
  concatenation only. When it contains a newline, the line returned is the buffered text
  and the text up to and including the first newline, and the rest stays to be read.
  Without a newline the call does not return while the child holds its side open; once
  the child has closed it, the call raises the \<open>OSError\<close> of the read, and the text read so
  far stays in the buffer.
\<close>

lemma readline_pty_chunks:
  "CHR 0x0A \<notin> set b \<Longrightarrow>
   (CHR 0x0A \<in> set (concat cs) \<longrightarrow>
      (\<exists>cs'. readline pty_read1 \<lparr>stream = (cs, e), buffer = b\<rparr> =
          Some (Inr (takeWhile (\<lambda>c. c \<noteq> CHR 0x0A) (b @ concat cs) @ ''\<newline>''),
                \<lparr>stream = (cs', e), buffer = []\<rparr>) \<and>
          concat cs' = drop 1 (dropWhile (\<lambda>c. c \<noteq> CHR 0x0A) (concat cs)))) \<and>
   (CHR 0x0A \<notin> set (concat cs) \<and> e \<longrightarrow>
      readline pty_read1 \<lparr>stream = (cs, e), buffer = b\<rparr> = None) \<and>
   (CHR 0x0A \<notin> set (concat cs) \<and> \<not> e \<longrightarrow>
      readline pty_read1 \<lparr>stream = (cs, e), buffer = b\<rparr> =
        Some (Inl (OSError (Some EIO) ''[Errno 5] Input/output error''),
              \<lparr>stream = ([], e), buffer = b @ concat cs\<rparr>))"
proof (induction cs arbitrary: b)
  case Nil
  then show ?case by (subst readline.simps, subst readline.simps, subst readline.simps) simp
next
  case (Cons chunk cs)
  from Cons.prems show ?case
  proof (induction chunk arbitrary: b)
    case Nil
    with Cons.IH [of b] show ?case by (simp add: readline_skip_empty)
  next
    case (Cons c r)
    show ?case
    proof (cases "c = CHR 0x0A")
      case True
      with Cons.prems show ?thesis
        by (subst readline.simps, subst readline.simps, subst readline.simps)
           (simp add: py_split1_fresh takeWhile_append)
    next
      case False
      with Cons.prems have nb: "CHR 0x0A \<notin> set (b @ [c])" by simp
      have step: "readline pty_read1 \<lparr>stream = ((c # r) # cs, e), buffer = b\<rparr>
                  = readline pty_read1 \<lparr>stream = (r # cs, e), buffer = b @ [c]\<rparr>"
        using False Cons.prems by (subst readline.simps) simp
      define X where "X = concat (r # cs)"
      have a: "concat ((c # r) # cs) = c # X" by (simp add: X_def)
      have b: "CHR 0x0A \<in> set (c # X) \<longleftrightarrow> CHR 0x0A \<in> set X"
        using False by auto
      have c: "b @ c # X = (b @ [c]) @ X" by simp
      have d: "dropWhile (\<lambda>c. c \<noteq> CHR 0x0A) (c # X) = dropWhile (\<lambda>c. c \<noteq> CHR 0x0A) X"
        using False by simp
      from Cons.IH [OF nb] show ?thesis
        unfolding step a b c d X_def [symmetric] .
    qed
  qed
qed

text \<open>
  C4. The child writes \<open>ab\<close>, \<open>c\<newline>\<close>, \<open>d\<close> to the pseudo-terminal and exits. The first
  call of \<open>readline\<close> returns one line, \<open>abc\<close> with the carriage return the terminal put
  before the newline. The next call reads \<open>d\<close>, and the read after it raises \<open>OSError\<close>
  (\<open>EIO\<close>): \<open>readline\<close> has no handler, the exception leaves it, and \<open>d\<close> stays in the
  buffer. Every later call raises again. So \<open>d\<close> is never returned and neither is the
  empty string; the branch of \<open>readline\<close> for an empty read is not reached on this stream.
  The same holds when the three chunks arrive at the master side as they are: the first
  line is then \<open>abc\<newline>\<close>. While the child holds its side open, the call after the
  first line does not return.
\<close>

theorem pty_readline_raises_at_end_of_stream:
  "readline pty_read1 \<lparr>stream = pty_master_stream [''ab'', ''c\<newline>'', ''d''] False, buffer = []\<rparr>
     = Some (Inr (''abc'' @ [CHR 0x0D, CHR 0x0A]),
             \<lparr>stream = ([[], ''d''], False), buffer = []\<rparr>) \<and>
   readline pty_read1 \<lparr>stream = ([''ab'', ''c\<newline>'', ''d''], False), buffer = []\<rparr>
     = Some (Inr ''abc\<newline>'', \<lparr>stream = ([[], ''d''], False), buffer = []\<rparr>) \<and>
   readline pty_read1 \<lparr>stream = ([[], ''d''], False), buffer = []\<rparr>
     = Some (Inl (OSError (Some 5) ''[Errno 5] Input/output error''),
             \<lparr>stream = ([], False), buffer = ''d''\<rparr>) \<and>
   readline pty_read1 \<lparr>stream = ([], False), buffer = ''d''\<rparr>
     = Some (Inl (OSError (Some 5) ''[Errno 5] Input/output error''),
             \<lparr>stream = ([], False), buffer = ''d''\<rparr>) \<and>
   readline pty_read1 \<lparr>stream = ([[], ''d''], True), buffer = []\<rparr> = None"
  by (simp add: readline.simps py_split1_def pty_master_stream_def EIO_def)

section \<open>Properties of the installer spawner\<close>

lemma execs_append: "execs (a @ b) = execs a @ execs b"
  by (induction a rule: execs.induct) simp_all

lemma start_feeder_execs:
  "start_feeder h w s p = (r, ev, w') \<Longrightarrow> execs ev = []"
  by (auto simp: start_feeder_def split: prod.splits sum.splits)

lemma pty_setup_execs: "pty_setup h w use_pty = (fds, ev, w') \<Longrightarrow> execs ev = []"
  by (auto simp: pty_setup_def split: prod.splits sum.splits if_splits)

lemma spawn_pty_execs: "spawn_pty h w cmd path s m sl = (r, ev, w') \<Longrightarrow> execs ev = [cmd]"
  by (auto simp: spawn_pty_def split: prod.splits sum.splits dest: start_feeder_execs)

lemma spawn_pipe_execs: "spawn_pipe h w cmd path cap s = (r, ev, w') \<Longrightarrow> execs ev = [cmd]"
  by (auto simp: spawn_pipe_def split: prod.splits sum.splits dest: start_feeder_execs)

lemma spawn_attempt_execs:
  assumes "spawn_attempt h w cmd path cap s use_pty = (r, ev, w')"
  shows "execs ev = [cmd]"
proof -
  obtain fds ev1 w1 where a: "pty_setup h w use_pty = (fds, ev1, w1)"
    by (cases "pty_setup h w use_pty")
  obtain r2 ev2 w2 where b:
    "(case fds of
        Some (m, sl) \<Rightarrow> spawn_pty h w1 cmd path s m sl
      | None \<Rightarrow> spawn_pipe h w1 cmd path cap s) = (r2, ev2, w2)"
    by (cases "case fds of
        Some (m, sl) \<Rightarrow> spawn_pty h w1 cmd path s m sl
      | None \<Rightarrow> spawn_pipe h w1 cmd path cap s")
  from assms a b have "ev = ev1 @ ev2" by (simp add: spawn_attempt_def)
  moreover have "execs ev1 = []" using a by (rule pty_setup_execs)
  moreover have "execs ev2 = [cmd]"
    using b by (auto split: option.splits prod.splits dest: spawn_pty_execs spawn_pipe_execs)
  ultimately show ?thesis by (simp add: execs_append)
qed

lemma spawn_attempt_popen_raises:
  assumes "\<forall>v c. argv c = cmd \<longrightarrow> (\<exists>ex v'. popen h v c = (Inl ex, v') \<and> P ex)"
  shows "\<exists>ex ev w'. spawn_attempt h w cmd path cap s use_pty = (Inl ex, ev, w') \<and> P ex
           \<and> execs ev = [cmd]"
proof -
  obtain fds ev1 w1 where a: "pty_setup h w use_pty = (fds, ev1, w1)"
    by (cases "pty_setup h w use_pty")
  have "\<exists>ex ev w'. spawn_attempt h w cmd path cap s use_pty = (Inl ex, ev, w') \<and> P ex"
  proof (cases fds)
    case None
    let ?c = "\<lparr>argv = cmd, cwd = Some path, stdin_spec = PIPE,
                stdout_spec = (if cap then PIPE else Inherited),
                stderr_spec = (if cap then STDOUT else Inherited),
                text_mode = True,
                env = Some (build_color_env h w1 None True)\<rparr>"
    have "\<exists>ex v'. popen h w1 ?c = (Inl ex, v') \<and> P ex"
      by (rule assms [rule_format, of ?c w1]) simp
    then obtain ex v' where "popen h w1 ?c = (Inl ex, v')" "P ex" by blast
    with a None show ?thesis by (simp add: spawn_attempt_def spawn_pipe_def)
  next
    case (Some ms)
    obtain m sl where ms: "ms = (m, sl)" by (cases ms)
    let ?c = "\<lparr>argv = cmd, cwd = Some path, stdin_spec = Fd sl,
                stdout_spec = Fd sl, stderr_spec = Fd sl,
                text_mode = False,
                env = Some (build_color_env h w1 None True)\<rparr>"
    have "\<exists>ex v'. popen h w1 ?c = (Inl ex, v') \<and> P ex"
      by (rule assms [rule_format, of ?c w1]) simp
    then obtain ex v' where "popen h w1 ?c = (Inl ex, v')" "P ex" by blast
    with a Some ms show ?thesis by (simp add: spawn_attempt_def spawn_pty_def)
  qed
  then obtain ex ev w' where x:
    "spawn_attempt h w cmd path cap s use_pty = (Inl ex, ev, w')" "P ex" by blast
  from spawn_attempt_execs [OF x(1)] x show ?thesis
    by (intro exI [of _ ex] exI [of _ ev] exI [of _ w']) simp
qed

lemma try_cmds_enoexec:
  assumes "\<forall>v c. argv c = cmd \<longrightarrow>
             (\<exists>ex v'. popen h v c = (Inl ex, v') \<and> (\<exists>msg. ex = OSError (Some ENOEXEC) msg))"
  shows "\<exists>w1 eva warn. execs eva = [cmd] \<and>
           try_cmds h w (cmd # cmds) path cap s use_pty
             = (case try_cmds h w1 cmds path cap s use_pty of
                  (r, ev', w'') \<Rightarrow> (r, eva @ [Log warn] @ ev', w''))"
proof -
  from spawn_attempt_popen_raises [OF assms, of w path cap s use_pty]
  obtain msg eva w1 where
    "spawn_attempt h w cmd path cap s use_pty = (Inl (OSError (Some ENOEXEC) msg), eva, w1)"
    "execs eva = [cmd]" by blast
  then show ?thesis by (simp, blast)
qed

lemma try_cmds_terminal:
  assumes "\<forall>v c. argv c = cmd \<longrightarrow>
             (\<exists>ex v'. popen h v c = (Inl ex, v') \<and> ex = x)"
    and "\<forall>msg. x \<noteq> OSError (Some ENOEXEC) msg"
  shows "\<exists>w1 eva. execs eva = [cmd] \<and>
           try_cmds h w (cmd # cmds) path cap s use_pty
             = (None, eva @ [Log (''[error] '' @ exn_str x @ ''\<newline>'')], w1)"
proof -
  from spawn_attempt_popen_raises [OF assms(1), of w path cap s use_pty]
  obtain eva w1 where
    "spawn_attempt h w cmd path cap s use_pty = (Inl x, eva, w1)"
    "execs eva = [cmd]" by blast
  with assms(2) show ?thesis by (cases x) auto
qed

lemma try_cmds_execs_prefix:
  "try_cmds h w cmds path cap s use_pty = (r, ev, w') \<Longrightarrow>
   prefix (execs ev) cmds \<and> (cmds \<noteq> [] \<longrightarrow> execs ev \<noteq> [])"
proof (induction cmds arbitrary: w r ev w')
  case Nil
  then show ?case by auto
next
  case (Cons cmd cmds)
  obtain ra eva wa where a: "spawn_attempt h w cmd path cap s use_pty = (ra, eva, wa)"
    by (cases "spawn_attempt h w cmd path cap s use_pty")
  then have e: "execs eva = [cmd]" by (rule spawn_attempt_execs)
  obtain r' ev' w'' where t: "try_cmds h wa cmds path cap s use_pty = (r', ev', w'')"
    by (cases "try_cmds h wa cmds path cap s use_pty")
  from Cons.IH [OF t] have p: "prefix (execs ev') cmds" by simp
  from Cons.prems a t e p show ?case
    by (auto simp: execs_append split: sum.splits exn.splits if_splits)
qed

lemma try_cmds_none_logged:
  "try_cmds h w cmds path cap s use_pty = (None, ev, w') \<Longrightarrow>
   ev \<noteq> [] \<and> (\<exists>msg. last ev = Log (''[error] '' @ msg))"
proof (induction cmds arbitrary: w ev w')
  case Nil
  then show ?case by auto
next
  case (Cons cmd cmds)
  obtain ra eva wa where a: "spawn_attempt h w cmd path cap s use_pty = (ra, eva, wa)"
    by (cases "spawn_attempt h w cmd path cap s use_pty")
  obtain r' ev' w'' where t: "try_cmds h wa cmds path cap s use_pty = (r', ev', w'')"
    by (cases "try_cmds h wa cmds path cap s use_pty")
  from Cons.prems a t Cons.IH [of wa ev' w''] show ?case
    by (auto split: sum.splits exn.splits if_splits)
qed


lemma try_cmds_enoexec_result:
  assumes "\<forall>v c. argv c = cmd \<longrightarrow> (\<exists>msg v'. popen h v c = (Inl (OSError (Some ENOEXEC) msg), v'))"
    and "try_cmds h w (cmd # cmds) path cap s use_pty = (r, ev, w')"
  shows "\<exists>w1 ev1. try_cmds h w1 cmds path cap s use_pty = (r, ev1, w')
           \<and> execs ev = cmd # execs ev1 \<and> (ev1 \<noteq> [] \<longrightarrow> last ev = last ev1)"
proof -
  from assms(1)
  have "\<forall>v c. argv c = cmd \<longrightarrow>
          (\<exists>ex v'. popen h v c = (Inl ex, v') \<and> (\<exists>msg. ex = OSError (Some ENOEXEC) msg))"
    by metis
  from try_cmds_enoexec [OF this, of w cmds path cap s use_pty]
  obtain w1 eva warn where e: "execs eva = [cmd]"
    and t: "try_cmds h w (cmd # cmds) path cap s use_pty
             = (case try_cmds h w1 cmds path cap s use_pty of
                  (r, ev', w'') \<Rightarrow> (r, eva @ [Log warn] @ ev', w''))"
    by blast
  obtain r1 ev1 w1' where t1: "try_cmds h w1 cmds path cap s use_pty = (r1, ev1, w1')"
    by (cases "try_cmds h w1 cmds path cap s use_pty")
  from assms(2) t t1 have "r1 = r" "w1' = w'" "ev = eva @ [Log warn] @ ev1" by simp_all
  with t1 e show ?thesis
    by (intro exI [of _ w1] exI [of _ ev1]) (simp add: execs_append)
qed

lemma try_cmds_terminal_result:
  assumes p: "\<forall>v c. argv c = cmd \<longrightarrow> (\<exists>v'. popen h v c = (Inl x, v'))"
    and n: "\<forall>msg. x \<noteq> OSError (Some ENOEXEC) msg"
    and t: "try_cmds h w (cmd # cmds) path cap s use_pty = (r, ev, w')"
  shows "r = None \<and> execs ev = [cmd] \<and> ev \<noteq> [] \<and>
         last ev = Log (''[error] '' @ exn_str x @ ''\<newline>'')"
proof -
  from p have "\<forall>v c. argv c = cmd \<longrightarrow> (\<exists>ex v'. popen h v c = (Inl ex, v') \<and> ex = x)"
    by simp
  from try_cmds_terminal [OF this n, of w cmds path cap s use_pty] t
  show ?thesis by (auto simp: execs_append)
qed

lemma try_cmds_second_terminal:
  assumes "\<forall>v c. argv c = c1 \<longrightarrow> (\<exists>msg v'. popen h v c = (Inl (OSError (Some ENOEXEC) msg), v'))"
    and p: "\<forall>v c. argv c = c2 \<longrightarrow> (\<exists>v'. popen h v c = (Inl x, v'))"
    and n: "\<forall>msg. x \<noteq> OSError (Some ENOEXEC) msg"
    and t: "try_cmds h w (c1 # c2 # cs) path cap s use_pty = (r, ev, w')"
  shows "r = None \<and> execs ev = [c1, c2] \<and>
         last ev = Log (''[error] '' @ exn_str x @ ''\<newline>'')"
proof -
  from try_cmds_enoexec_result [OF assms(1) t] obtain w1 ev1 where
    t1: "try_cmds h w1 (c2 # cs) path cap s use_pty = (r, ev1, w')"
    and e: "execs ev = c1 # execs ev1"
    and l: "ev1 \<noteq> [] \<longrightarrow> last ev = last ev1"
    by blast
  from try_cmds_terminal_result [OF p n t1] e l show ?thesis by simp
qed

lemma try_cmds_third_terminal:
  assumes "\<forall>v c. argv c = c1 \<longrightarrow> (\<exists>msg v'. popen h v c = (Inl (OSError (Some ENOEXEC) msg), v'))"
    and "\<forall>v c. argv c = c2 \<longrightarrow> (\<exists>msg v'. popen h v c = (Inl (OSError (Some ENOEXEC) msg), v'))"
    and p: "\<forall>v c. argv c = c3 \<longrightarrow> (\<exists>v'. popen h v c = (Inl x, v'))"
    and n: "\<forall>msg. x \<noteq> OSError (Some ENOEXEC) msg"
    and t: "try_cmds h w (c1 # c2 # c3 # cs) path cap s use_pty = (r, ev, w')"
  shows "r = None \<and> execs ev = [c1, c2, c3] \<and>
         last ev = Log (''[error] '' @ exn_str x @ ''\<newline>'')"
proof -
  from try_cmds_enoexec_result [OF assms(1) t] obtain w1 ev1 where
    t1: "try_cmds h w1 (c2 # c3 # cs) path cap s use_pty = (r, ev1, w')"
    and e: "execs ev = c1 # execs ev1"
    and l: "ev1 \<noteq> [] \<longrightarrow> last ev = last ev1"
    by blast
  from try_cmds_second_terminal [OF assms(2) p n t1] have
    x: "r = None" "execs ev1 = [c2, c3]"
       "last ev1 = Log (''[error] '' @ exn_str x @ ''\<newline>'')"
    by simp_all
  from x(2) have "ev1 \<noteq> []" by auto
  with x e l show ?thesis by simp
qed

lemma try_cmds_all_enoexec:
  assumes "\<forall>v c. argv c = c1 \<longrightarrow> (\<exists>msg v'. popen h v c = (Inl (OSError (Some ENOEXEC) msg), v'))"
    and "\<forall>v c. argv c = c2 \<longrightarrow> (\<exists>msg v'. popen h v c = (Inl (OSError (Some ENOEXEC) msg), v'))"
    and "\<forall>v c. argv c = c3 \<longrightarrow> (\<exists>msg v'. popen h v c = (Inl (OSError (Some ENOEXEC) msg), v'))"
    and t: "try_cmds h w [c1, c2, c3] path cap s use_pty = (r, ev, w')"
  shows "r = None \<and> execs ev = [c1, c2, c3] \<and>
         last ev = Log ''[error] All setup execution fallbacks failed.\<newline>''"
proof -
  from try_cmds_enoexec_result [OF assms(1) t] obtain w1 ev1 where
    t1: "try_cmds h w1 [c2, c3] path cap s use_pty = (r, ev1, w')"
    and e1: "execs ev = c1 # execs ev1"
    and l1: "ev1 \<noteq> [] \<longrightarrow> last ev = last ev1"
    by blast
  from try_cmds_enoexec_result [OF assms(2) t1] obtain w2 ev2 where
    t2: "try_cmds h w2 [c3] path cap s use_pty = (r, ev2, w')"
    and e2: "execs ev1 = c2 # execs ev2"
    and l2: "ev2 \<noteq> [] \<longrightarrow> last ev1 = last ev2"
    by blast
  from try_cmds_enoexec_result [OF assms(3) t2] obtain w3 ev3 where
    t3: "try_cmds h w3 [] path cap s use_pty = (r, ev3, w')"
    and e3: "execs ev2 = c3 # execs ev3"
    and l3: "ev3 \<noteq> [] \<longrightarrow> last ev2 = last ev3"
    by blast
  from t3 have x: "r = None" "ev3 = [Log ''[error] All setup execution fallbacks failed.\<newline>'']"
    by simp_all
  from e3 have n2: "ev2 \<noteq> []" by auto
  from e2 have n1: "ev1 \<noteq> []" by auto
  from x e1 e2 e3 l1 l2 l3 n1 n2 show ?thesis by simp
qed

lemma try_cmds_last_fails:
  assumes "\<forall>v c. argv c = cmd \<longrightarrow> (\<exists>ex v'. popen h v c = (Inl ex, v'))"
    and "try_cmds h w [cmd] path cap s use_pty = (r, ev, w')"
  shows "r = None"
proof -
  from assms(1)
  have "\<forall>v c. argv c = cmd \<longrightarrow> (\<exists>ex v'. popen h v c = (Inl ex, v') \<and> True)" by simp
  from spawn_attempt_popen_raises [OF this, of w path cap s use_pty]
  obtain ex eva w1 where "spawn_attempt h w cmd path cap s use_pty = (Inl ex, eva, w1)"
    by blast
  with assms(2) show ?thesis by (cases ex) (auto split: if_splits)
qed

lemma try_cmds_chain2:
  assumes "\<forall>v c. argv c = c1 \<longrightarrow> (\<exists>msg v'. popen h v c = (Inl (OSError (Some ENOEXEC) msg), v'))"
    and t: "try_cmds h w (c1 # c2 # cs) path cap s use_pty = (r, ev, w')"
  shows "take 2 (execs ev) = [c1, c2]"
proof -
  from try_cmds_enoexec_result [OF assms] obtain w1 ev1 where
    t1: "try_cmds h w1 (c2 # cs) path cap s use_pty = (r, ev1, w')"
    and e: "execs ev = c1 # execs ev1"
    by blast
  from try_cmds_execs_prefix [OF t1] obtain rest where "execs ev1 = c2 # rest"
    by (cases "execs ev1") auto
  with e show ?thesis by simp
qed

lemma try_cmds_chain3:
  assumes "\<forall>v c. argv c = c1 \<longrightarrow> (\<exists>msg v'. popen h v c = (Inl (OSError (Some ENOEXEC) msg), v'))"
    and "\<forall>v c. argv c = c2 \<longrightarrow> (\<exists>msg v'. popen h v c = (Inl (OSError (Some ENOEXEC) msg), v'))"
    and t: "try_cmds h w [c1, c2, c3] path cap s use_pty = (r, ev, w')"
  shows "execs ev = [c1, c2, c3]"
    and "(\<forall>v c. argv c = c3 \<longrightarrow> (\<exists>ex v'. popen h v c = (Inl ex, v'))) \<Longrightarrow> r = None"
proof -
  from try_cmds_enoexec_result [OF assms(1) t] obtain w1 ev1 where
    t1: "try_cmds h w1 [c2, c3] path cap s use_pty = (r, ev1, w')"
    and e: "execs ev = c1 # execs ev1"
    by blast
  from try_cmds_enoexec_result [OF assms(2) t1] obtain w2 ev2 where
    t2: "try_cmds h w2 [c3] path cap s use_pty = (r, ev2, w')"
    and e1: "execs ev1 = c2 # execs ev2"
    by blast
  from try_cmds_execs_prefix [OF t2] have "execs ev2 = [c3]"
    by (cases "execs ev2") auto
  with e e1 show "execs ev = [c1, c2, c3]" by simp
  show "r = None" if "\<forall>v c. argv c = c3 \<longrightarrow> (\<exists>ex v'. popen h v c = (Inl ex, v'))"
    using try_cmds_last_fails [OF that t2] .
qed

text \<open>
  C6 (amended). The commands passed to \<open>Popen\<close> are, in this order, a non-empty prefix of
  \<open>./setup\<close>, \<open>fish ./setup\<close>, \<open>sh ./setup\<close> (each with the extra arguments). When the
  direct invocation fails with \<open>ENOEXEC\<close>, the next attempt is \<open>fish ./setup\<close>. When that
  fails with \<open>ENOEXEC\<close> too, the next attempt is \<open>sh ./setup\<close>; when it raises anything
  else, \<open>x\<close>, the call ends there: \<open>sh ./setup\<close> is not attempted, the text of \<open>x\<close> is
  logged as an \<open>[error]\<close> line and no handle is returned. When the third attempt fails as
  well, no handle is returned and the last thing the function does is to log an
  \<open>[error]\<close> line; it is the line that all fallbacks failed when the third failure is
  \<open>ENOEXEC\<close> again.
\<close>

theorem setup_fallback_chain:
  "let a = (case extra_args of None \<Rightarrow> [] | Some x \<Rightarrow> x);
       direct = ''./setup'' # a;
       via_fish = ''fish'' # ''./setup'' # a;
       via_sh = ''sh'' # ''./setup'' # a;
       exec_format = (\<lambda>cmd. \<forall>v c. argv c = cmd \<longrightarrow>
                        (\<exists>msg v'. popen h v c = (Inl (OSError (Some ENOEXEC) msg), v')));
       fails = (\<lambda>cmd. \<forall>v c. argv c = cmd \<longrightarrow> (\<exists>ex v'. popen h v c = (Inl ex, v')));
       (r, ev, w') = spawn_setup_install h w path extra_args capture_stdout auto_input_seq use_pty
   in prefix (execs ev) [direct, via_fish, via_sh] \<and> execs ev \<noteq> [] \<and>
      (exec_format direct \<longrightarrow> take 2 (execs ev) = [direct, via_fish]) \<and>
      (exec_format direct \<and> exec_format via_fish \<longrightarrow> execs ev = [direct, via_fish, via_sh]) \<and>
      (exec_format direct \<and> (\<forall>v c. argv c = via_fish \<longrightarrow> (\<exists>v'. popen h v c = (Inl x, v'))) \<and>
       (\<forall>msg. x \<noteq> OSError (Some ENOEXEC) msg) \<longrightarrow>
         r = None \<and> execs ev = [direct, via_fish] \<and>
         last ev = Log (''[error] '' @ exn_str x @ ''\<newline>'')) \<and>
      (exec_format direct \<and> exec_format via_fish \<and> fails via_sh \<longrightarrow>
         r = None \<and> ev \<noteq> [] \<and> (\<exists>msg. last ev = Log (''[error] '' @ msg))) \<and>
      (exec_format direct \<and> exec_format via_fish \<and> exec_format via_sh \<longrightarrow>
         r = None \<and> last ev = Log ''[error] All setup execution fallbacks failed.\<newline>'')"
proof -
  define a where "a = (case extra_args of None \<Rightarrow> [] | Some x \<Rightarrow> x)"
  define direct where "direct = ''./setup'' # a"
  define via_fish where "via_fish = ''fish'' # ''./setup'' # a"
  define via_sh where "via_sh = ''sh'' # ''./setup'' # a"
  define exec_format where "exec_format = (\<lambda>cmd. \<forall>v c. argv c = cmd \<longrightarrow>
                        (\<exists>msg v'. popen h v c = (Inl (OSError (Some ENOEXEC) msg), v')))"
  define fails where
    "fails = (\<lambda>cmd. \<forall>v c. argv c = cmd \<longrightarrow> (\<exists>ex v'. popen h v c = (Inl ex, v')))"
  obtain r ev w' where res:
    "spawn_setup_install h w path extra_args capture_stdout auto_input_seq use_pty = (r, ev, w')"
    by (cases "spawn_setup_install h w path extra_args capture_stdout auto_input_seq use_pty")
  then have t: "try_cmds h w [direct, via_fish, via_sh] path capture_stdout auto_input_seq use_pty
                  = (r, ev, w')"
    by (simp add: spawn_setup_install_def base_cmds_def a_def direct_def via_fish_def via_sh_def)
  from try_cmds_execs_prefix [OF t]
  have 1: "prefix (execs ev) [direct, via_fish, via_sh]" "execs ev \<noteq> []" by simp_all
  have 2: "take 2 (execs ev) = [direct, via_fish]" if "exec_format direct"
    using that try_cmds_chain2 [OF _ t] unfolding exec_format_def by simp
  have 3: "execs ev = [direct, via_fish, via_sh]"
    if "exec_format direct" "exec_format via_fish"
    using that try_cmds_chain3(1) [OF _ _ t] unfolding exec_format_def by simp
  have 4: "r = None \<and> ev \<noteq> [] \<and> (\<exists>msg. last ev = Log (''[error] '' @ msg))"
    if "exec_format direct" "exec_format via_fish" "fails via_sh"
  proof -
    from that try_cmds_chain3(2) [OF _ _ t] have "r = None"
      unfolding exec_format_def fails_def by simp
    with t have "try_cmds h w [direct, via_fish, via_sh] path capture_stdout auto_input_seq
                   use_pty = (None, ev, w')" by simp
    from try_cmds_none_logged [OF this] \<open>r = None\<close> show ?thesis by simp
  qed
  have 6: "r = None \<and> execs ev = [direct, via_fish] \<and>
           last ev = Log (''[error] '' @ exn_str x @ ''\<newline>'')"
    if d: "exec_format direct"
      and p: "\<forall>v c. argv c = via_fish \<longrightarrow> (\<exists>v'. popen h v c = (Inl x, v'))"
      and n: "\<forall>msg. x \<noteq> OSError (Some ENOEXEC) msg"
  proof -
    from d have "\<forall>v c. argv c = direct \<longrightarrow>
                   (\<exists>msg v'. popen h v c = (Inl (OSError (Some ENOEXEC) msg), v'))"
      unfolding exec_format_def .
    from try_cmds_second_terminal [OF this p n t] show ?thesis .
  qed
  have 7: "r = None \<and> last ev = Log ''[error] All setup execution fallbacks failed.\<newline>''"
    if "exec_format direct" "exec_format via_fish" "exec_format via_sh"
    using that try_cmds_all_enoexec [OF _ _ _ t] unfolding exec_format_def by simp
  have 5: "prefix (execs ev) [direct, via_fish, via_sh] \<and> execs ev \<noteq> [] \<and>
      (exec_format direct \<longrightarrow> take 2 (execs ev) = [direct, via_fish]) \<and>
      (exec_format direct \<and> exec_format via_fish \<longrightarrow> execs ev = [direct, via_fish, via_sh]) \<and>
      (exec_format direct \<and> (\<forall>v c. argv c = via_fish \<longrightarrow> (\<exists>v'. popen h v c = (Inl x, v'))) \<and>
       (\<forall>msg. x \<noteq> OSError (Some ENOEXEC) msg) \<longrightarrow>
         r = None \<and> execs ev = [direct, via_fish] \<and>
         last ev = Log (''[error] '' @ exn_str x @ ''\<newline>'')) \<and>
      (exec_format direct \<and> exec_format via_fish \<and> fails via_sh \<longrightarrow>
         r = None \<and> ev \<noteq> [] \<and> (\<exists>msg. last ev = Log (''[error] '' @ msg))) \<and>
      (exec_format direct \<and> exec_format via_fish \<and> exec_format via_sh \<longrightarrow>
         r = None \<and> last ev = Log ''[error] All setup execution fallbacks failed.\<newline>'')"
    using 1 2 3 4 6 7 by blast
  show ?thesis
    unfolding Let_def res prod.case
    using 5 unfolding a_def direct_def via_fish_def via_sh_def exec_format_def fails_def .
qed

theorem setup_fallback_chain_witness:
  "spawn_setup_install noexec_host 0 ''/repo'' (Some [''install'']) True None True
     = (None,
        [Exec [''./setup'', ''install''],
         Log ''[warn] Exec format error with ./setup install; trying fallback...\<newline>'',
         Exec [''fish'', ''./setup'', ''install''],
         Log ''[warn] Exec format error with fish ./setup install; trying fallback...\<newline>'',
         Exec [''sh'', ''./setup'', ''install''],
         Log ''[warn] Exec format error with sh ./setup install; trying fallback...\<newline>'',
         Log ''[error] All setup execution fallbacks failed.\<newline>''],
        3) \<and>
   spawn_setup_install nofish_host 0 ''/repo'' (Some [''install'']) True None True
     = (None,
        [Exec [''./setup'', ''install''],
         Log ''[warn] Exec format error with ./setup install; trying fallback...\<newline>'',
         Exec [''fish'', ''./setup'', ''install''],
         Log ''[error] [Errno 2] No such file or directory\<newline>''],
        2)"
  using setup_fallback_chain
          [where extra_args = "Some [''install'']" and h = noexec_host and w = 0
             and path = "''/repo''" and capture_stdout = True and auto_input_seq = None
             and use_pty = True
             and x = "OSError (Some 2) ''[Errno 2] No such file or directory''"]
        setup_fallback_chain
          [where extra_args = "Some [''install'']" and h = nofish_host and w = 0
             and path = "''/repo''" and capture_stdout = True and auto_input_seq = None
             and use_pty = True
             and x = "OSError (Some 2) ''[Errno 2] No such file or directory''"]
  by (simp add: spawn_setup_install_def base_cmds_def spawn_attempt_def pty_setup_def
        spawn_pty_def noexec_host_def nofish_host_def example_host_def ENOEXEC_def)

text \<open>
  C6 as stated fails where \<open>fish\<close> is not installed: \<open>./setup\<close> fails with \<open>ENOEXEC\<close>,
  \<open>fish ./setup\<close> with \<open>ENOENT\<close>, and the function returns no handle without
  attempting \<open>sh ./setup\<close>, which would have started.
\<close>

theorem fish_missing_sh_not_attempted:
  "fst (spawn_setup_install nofish_host 0 ''/repo'' None True None True) = None \<and>
   execs (fst (snd (spawn_setup_install nofish_host 0 ''/repo'' None True None True)))
     = [[''./setup''], [''fish'', ''./setup'']] \<and>
   fst (popen nofish_host 2 \<lparr>argv = [''sh'', ''./setup''], cwd = Some ''/repo'',
                             stdin_spec = Fd 4, stdout_spec = Fd 4, stderr_spec = Fd 4,
                             text_mode = False, env = None\<rparr>) = Inr 7"
  by (simp add: spawn_setup_install_def base_cmds_def spawn_attempt_def pty_setup_def
        spawn_pty_def nofish_host_def example_host_def ENOEXEC_def)

text \<open>
  C7 (amended). Only a spawn failure with \<open>ENOEXEC\<close> makes the function go on to the
  next command: after such a failure of \<open>./setup\<close> the next attempt is \<open>fish ./setup\<close>,
  after one of \<open>fish ./setup\<close> too it is \<open>sh ./setup\<close>. When an attempt raises anything
  else, \<open>x\<close> (a missing executable, a permission error, any other exception), it is the
  last one, whichever of the three commands it is: the commands after it are not
  attempted, no handle is returned, and the last thing the function does is to log the
  text of \<open>x\<close> as an \<open>[error]\<close> line. When all three attempts fail with \<open>ENOEXEC\<close>, no
  handle is returned and the line that all fallbacks failed is logged last. Whenever no
  handle is returned, the last event is the log of an \<open>[error]\<close> line; the function has no
  other outcome than a handle or \<open>None\<close>.
\<close>

theorem spawn_failure_classes:
  "let a = (case extra_args of None \<Rightarrow> [] | Some x \<Rightarrow> x);
       direct = ''./setup'' # a;
       via_fish = ''fish'' # ''./setup'' # a;
       via_sh = ''sh'' # ''./setup'' # a;
       exec_format = (\<lambda>cmd. \<forall>v c. argv c = cmd \<longrightarrow>
                        (\<exists>msg v'. popen h v c = (Inl (OSError (Some ENOEXEC) msg), v')));
       raises = (\<lambda>cmd. \<forall>v c. argv c = cmd \<longrightarrow> (\<exists>v'. popen h v c = (Inl x, v')));
       other = (\<forall>msg. x \<noteq> OSError (Some ENOEXEC) msg);
       report = Log (''[error] '' @ exn_str x @ ''\<newline>'');
       (r, ev, w') = spawn_setup_install h w path extra_args capture_stdout auto_input_seq use_pty
   in (exec_format direct \<longrightarrow> take 2 (execs ev) = [direct, via_fish]) \<and>
      (exec_format direct \<and> exec_format via_fish \<longrightarrow> execs ev = [direct, via_fish, via_sh]) \<and>
      (other \<and> raises direct \<longrightarrow>
         r = None \<and> execs ev = [direct] \<and> last ev = report) \<and>
      (other \<and> exec_format direct \<and> raises via_fish \<longrightarrow>
         r = None \<and> execs ev = [direct, via_fish] \<and> last ev = report) \<and>
      (other \<and> exec_format direct \<and> exec_format via_fish \<and> raises via_sh \<longrightarrow>
         r = None \<and> execs ev = [direct, via_fish, via_sh] \<and> last ev = report) \<and>
      (exec_format direct \<and> exec_format via_fish \<and> exec_format via_sh \<longrightarrow>
         r = None \<and> execs ev = [direct, via_fish, via_sh] \<and>
         last ev = Log ''[error] All setup execution fallbacks failed.\<newline>'') \<and>
      (r = None \<longrightarrow> ev \<noteq> [] \<and> (\<exists>msg. last ev = Log (''[error] '' @ msg)))"
proof -
  define a where "a = (case extra_args of None \<Rightarrow> [] | Some x \<Rightarrow> x)"
  define direct where "direct = ''./setup'' # a"
  define via_fish where "via_fish = ''fish'' # ''./setup'' # a"
  define via_sh where "via_sh = ''sh'' # ''./setup'' # a"
  define exec_format where "exec_format = (\<lambda>cmd. \<forall>v c. argv c = cmd \<longrightarrow>
                        (\<exists>msg v'. popen h v c = (Inl (OSError (Some ENOEXEC) msg), v')))"
  define raises where
    "raises = (\<lambda>cmd. \<forall>v c. argv c = cmd \<longrightarrow> (\<exists>v'. popen h v c = (Inl x, v')))"
  define other where "other = (\<forall>msg. x \<noteq> OSError (Some ENOEXEC) msg)"
  define report where "report = Log (''[error] '' @ exn_str x @ ''\<newline>'')"
  obtain r ev w' where res:
    "spawn_setup_install h w path extra_args capture_stdout auto_input_seq use_pty = (r, ev, w')"
    by (cases "spawn_setup_install h w path extra_args capture_stdout auto_input_seq use_pty")
  then have t: "try_cmds h w [direct, via_fish, via_sh] path capture_stdout auto_input_seq use_pty
                  = (r, ev, w')"
    by (simp add: spawn_setup_install_def base_cmds_def a_def direct_def via_fish_def via_sh_def)
  have ef: "\<forall>v c. argv c = cmd \<longrightarrow>
              (\<exists>msg v'. popen h v c = (Inl (OSError (Some ENOEXEC) msg), v'))"
    if "exec_format cmd" for cmd
    using that unfolding exec_format_def .
  have ra: "\<forall>v c. argv c = cmd \<longrightarrow> (\<exists>v'. popen h v c = (Inl x, v'))"
    if "raises cmd" for cmd
    using that unfolding raises_def .
  have ot: "\<forall>msg. x \<noteq> OSError (Some ENOEXEC) msg" if other
    using that unfolding other_def .
  have 1: "take 2 (execs ev) = [direct, via_fish]" if "exec_format direct"
    using try_cmds_chain2 [OF ef [OF that] t] .
  have 2: "execs ev = [direct, via_fish, via_sh]"
    if "exec_format direct" "exec_format via_fish"
    using try_cmds_chain3(1) [OF ef [OF that(1)] ef [OF that(2)] t] .
  have 3: "r = None \<and> execs ev = [direct] \<and> last ev = report"
    if other "raises direct"
    using try_cmds_terminal_result [OF ra [OF that(2)] ot [OF that(1)] t]
    unfolding report_def by simp
  have 4: "r = None \<and> execs ev = [direct, via_fish] \<and> last ev = report"
    if other "exec_format direct" "raises via_fish"
    using try_cmds_second_terminal [OF ef [OF that(2)] ra [OF that(3)] ot [OF that(1)] t]
    unfolding report_def .
  have 5: "r = None \<and> execs ev = [direct, via_fish, via_sh] \<and> last ev = report"
    if other "exec_format direct" "exec_format via_fish" "raises via_sh"
    using try_cmds_third_terminal
            [OF ef [OF that(2)] ef [OF that(3)] ra [OF that(4)] ot [OF that(1)] t]
    unfolding report_def .
  have 6: "r = None \<and> execs ev = [direct, via_fish, via_sh] \<and>
           last ev = Log ''[error] All setup execution fallbacks failed.\<newline>''"
    if "exec_format direct" "exec_format via_fish" "exec_format via_sh"
    using try_cmds_all_enoexec [OF ef [OF that(1)] ef [OF that(2)] ef [OF that(3)] t] .
  have 7: "ev \<noteq> [] \<and> (\<exists>msg. last ev = Log (''[error] '' @ msg))" if "r = None"
    using that t try_cmds_none_logged [of h w "[direct, via_fish, via_sh]" path capture_stdout
      auto_input_seq use_pty ev w'] by simp
  have 8: "(exec_format direct \<longrightarrow> take 2 (execs ev) = [direct, via_fish]) \<and>
      (exec_format direct \<and> exec_format via_fish \<longrightarrow> execs ev = [direct, via_fish, via_sh]) \<and>
      (other \<and> raises direct \<longrightarrow>
         r = None \<and> execs ev = [direct] \<and> last ev = report) \<and>
      (other \<and> exec_format direct \<and> raises via_fish \<longrightarrow>
         r = None \<and> execs ev = [direct, via_fish] \<and> last ev = report) \<and>
      (other \<and> exec_format direct \<and> exec_format via_fish \<and> raises via_sh \<longrightarrow>
         r = None \<and> execs ev = [direct, via_fish, via_sh] \<and> last ev = report) \<and>
      (exec_format direct \<and> exec_format via_fish \<and> exec_format via_sh \<longrightarrow>
         r = None \<and> execs ev = [direct, via_fish, via_sh] \<and>
         last ev = Log ''[error] All setup execution fallbacks failed.\<newline>'') \<and>
      (r = None \<longrightarrow> ev \<noteq> [] \<and> (\<exists>msg. last ev = Log (''[error] '' @ msg)))"
    using 1 2 3 4 5 6 7 by blast
  show ?thesis
    unfolding Let_def res prod.case
    using 8 unfolding a_def direct_def via_fish_def via_sh_def exec_format_def raises_def
      other_def report_def .
qed

theorem spawn_failure_classes_witness:
  "spawn_setup_install failing_host 0 ''/repo'' None True None False
     = (None,
        [Exec [''./setup''], Log ''[error] [Errno 2] No such file or directory\<newline>''], 0) \<and>
   spawn_setup_install nofish_host 0 ''/repo'' None True None False
     = (None,
        [Exec [''./setup''],
         Log ''[warn] Exec format error with ./setup; trying fallback...\<newline>'',
         Exec [''fish'', ''./setup''],
         Log ''[error] [Errno 2] No such file or directory\<newline>''], 2) \<and>
   spawn_setup_install nosh_host 0 ''/repo'' None True None False
     = (None,
        [Exec [''./setup''],
         Log ''[warn] Exec format error with ./setup; trying fallback...\<newline>'',
         Exec [''fish'', ''./setup''],
         Log ''[warn] Exec format error with fish ./setup; trying fallback...\<newline>'',
         Exec [''sh'', ''./setup''],
         Log ''[error] [Errno 13] Permission denied\<newline>''], 3) \<and>
   fst (snd (spawn_setup_install noexec_host 0 ''/repo'' None True None False))
     = [Exec [''./setup''],
        Log ''[warn] Exec format error with ./setup; trying fallback...\<newline>'',
        Exec [''fish'', ''./setup''],
        Log ''[warn] Exec format error with fish ./setup; trying fallback...\<newline>'',
        Exec [''sh'', ''./setup''],
        Log ''[warn] Exec format error with sh ./setup; trying fallback...\<newline>'',
        Log ''[error] All setup execution fallbacks failed.\<newline>'']"
  using spawn_failure_classes
          [where extra_args = None and h = failing_host and w = 0 and path = "''/repo''"
             and capture_stdout = True and auto_input_seq = None and use_pty = False
             and x = "OSError (Some 2) ''[Errno 2] No such file or directory''"]
        spawn_failure_classes
          [where extra_args = None and h = nofish_host and w = 0 and path = "''/repo''"
             and capture_stdout = True and auto_input_seq = None and use_pty = False
             and x = "OSError (Some 2) ''[Errno 2] No such file or directory''"]
        spawn_failure_classes
          [where extra_args = None and h = nosh_host and w = 0 and path = "''/repo''"
             and capture_stdout = True and auto_input_seq = None and use_pty = False
             and x = "OSError (Some 13) ''[Errno 13] Permission denied''"]
        spawn_failure_classes
          [where extra_args = None and h = noexec_host and w = 0 and path = "''/repo''"
             and capture_stdout = True and auto_input_seq = None and use_pty = False
             and x = "OSError (Some 2) ''[Errno 2] No such file or directory''"]
  by (simp add: spawn_setup_install_def base_cmds_def spawn_attempt_def pty_setup_def
        spawn_pipe_def failing_host_def nofish_host_def nosh_host_def noexec_host_def
        example_host_def ENOEXEC_def)

text \<open>
  C7 as stated fails for a missing executable: \<open>ENOENT\<close> on \<open>./setup\<close> ends
  the function after the first attempt, with two commands of the chain left untried.
\<close>

theorem missing_executable_stops_chain:
  "fst (spawn_setup_install failing_host 0 ''/repo'' None True None False) = None \<and>
   execs (fst (snd (spawn_setup_install failing_host 0 ''/repo'' None True None False)))
     = [[''./setup'']]"
  by (simp add: spawn_setup_install_def base_cmds_def spawn_attempt_def pty_setup_def
        spawn_pipe_def failing_host_def example_host_def ENOEXEC_def)

section \<open>Properties of the auto-input feeder\<close>

lemma written_append: "written (a @ b) = written a @ written b"
  by (induction a rule: written.induct) simp_all

lemma feed_items_subseq:
  "subseq (map snd (written (fst (feed_items h m pipe w items))))
          (map (encode_replace h) items)"
proof (induction items arbitrary: w)
  case Nil
  show ?case by simp
next
  case (Cons item items)
  show ?case
  proof (cases m)
    case (Some fd)
    obtain r w' where wr: "os_write h w fd (encode_replace h item) = (r, w')"
      by (cases "os_write h w fd (encode_replace h item)")
    obtain ev w'' where rest:
      "feed_items h m pipe (time_sleep h w' 250) items = (ev, w'')"
      by (cases "feed_items h m pipe (time_sleep h w' 250) items")
    from Cons.IH [of "time_sleep h w' 250"] rest
    have "subseq (map snd (written ev)) (map (encode_replace h) items)" by simp
    with Some wr rest show ?thesis by (cases r) simp_all
  next
    case None
    show ?thesis
    proof (cases pipe)
      case none: None
      with None show ?thesis by simp
    next
      case (Some f)
      show ?thesis
      proof (cases "pipe_closed h w f")
        case True
        with None Some show ?thesis by simp
      next
        case False
        obtain r w' where wr:
          "os_write h w (pipe_fd h f) (encode_replace h item) = (r, w')"
          by (cases "os_write h w (pipe_fd h f) (encode_replace h item)")
        obtain ev w'' where rest:
          "feed_items h m pipe (time_sleep h w' 250) items = (ev, w'')"
          by (cases "feed_items h m pipe (time_sleep h w' 250) items")
        from Cons.IH [of "time_sleep h w' 250"] rest
        have "subseq (map snd (written ev)) (map (encode_replace h) items)" by simp
        with None Some False wr rest show ?thesis
          by (cases r) (simp_all add: fileno_def)
      qed
    qed
  qed
qed

lemma send_yesforall_subseq:
  "subseq (map snd (written (fst (send_yesforall h m pipe w))))
          [encode_replace h ''yesforall\<newline>'']"
  by (auto simp: send_yesforall_def Let_def fileno_def
           split: option.splits prod.splits sum.splits)

lemma feed_pty:
  "pty_master_fd p = Some m \<Longrightarrow>
   feed h w p items =
     (case feed_items h (Some m) None (time_sleep h w 200) items of
        (ev, w1) \<Rightarrow>
          (case send_yesforall h (Some m) None w1 of (ev', w2) \<Rightarrow> (ev @ ev', w2)))"
  by (simp add: feed_def Let_def)

lemma feed_pipe:
  "pty_master_fd p = None \<Longrightarrow> stdin p = Some f \<Longrightarrow>
   feed h w p items =
     (case feed_items h None (Some f) (time_sleep h w 200) items of
        (ev, w1) \<Rightarrow>
          (case send_yesforall h None (Some f) w1 of (ev', w2) \<Rightarrow> (ev @ ev', w2)))"
  by (simp add: feed_def Let_def)

lemma feed_unavailable:
  "pty_master_fd p = None \<Longrightarrow> stdin p = None \<Longrightarrow>
   feed h w p items
     = ([Log ''[auto-input] stdin unavailable; aborting auto sequence\<newline>''], w)"
  by (simp add: feed_def)

lemma feed_steps_subseq:
  assumes "feed_items h m pipe w0 items = (ev, w1)"
    and "send_yesforall h m pipe w1 = (ev', w2)"
  shows "subseq (map snd (written (ev @ ev')))
           (map (encode_replace h) (items @ [''yesforall\<newline>'']))"
proof -
  from feed_items_subseq [of h m pipe w0 items] assms(1)
  have 1: "subseq (map snd (written ev)) (map (encode_replace h) items)" by simp
  from send_yesforall_subseq [of h m pipe w1] assms(2)
  have 2: "subseq (map snd (written ev')) [encode_replace h ''yesforall\<newline>'']" by simp
  from 1 2 show ?thesis
    by (simp add: written_append list_emb_append_mono)
qed

lemma feed_subseq:
  "subseq (map snd (written (fst (feed h w p items))))
          (map (encode_replace h) (items @ [''yesforall\<newline>'']))"
proof (cases "pty_master_fd p")
  case (Some m)
  obtain ev w1 where a: "feed_items h (Some m) None (time_sleep h w 200) items = (ev, w1)"
    by (cases "feed_items h (Some m) None (time_sleep h w 200) items")
  obtain ev' w2 where b: "send_yesforall h (Some m) None w1 = (ev', w2)"
    by (cases "send_yesforall h (Some m) None w1")
  from feed_steps_subseq [OF a b] show ?thesis by (simp add: feed_pty [OF Some] a b)
next
  case None
  show ?thesis
  proof (cases "stdin p")
    case none: None
    show ?thesis by (simp add: feed_unavailable [OF None none])
  next
    case (Some f)
    obtain ev w1 where a: "feed_items h None (Some f) (time_sleep h w 200) items = (ev, w1)"
      by (cases "feed_items h None (Some f) (time_sleep h w 200) items")
    obtain ev' w2 where b: "send_yesforall h None (Some f) w1 = (ev', w2)"
      by (cases "send_yesforall h None (Some f) w1")
    from feed_steps_subseq [OF a b] show ?thesis by (simp add: feed_pipe [OF None Some] a b)
  qed
qed

lemma feed_items_pty_ok:
  assumes "\<forall>v d. \<exists>n v'. os_write h v m d = (Inr n, v')"
  shows "written (fst (feed_items h (Some m) pipe w items))
           = map (\<lambda>d. (m, encode_replace h d)) items"
proof (induction items arbitrary: w)
  case Nil
  show ?case by simp
next
  case (Cons item items)
  from assms obtain n w' where wr: "os_write h w m (encode_replace h item) = (Inr n, w')"
    by blast
  obtain ev w'' where rest:
    "feed_items h (Some m) pipe (time_sleep h w' 250) items = (ev, w'')"
    by (cases "feed_items h (Some m) pipe (time_sleep h w' 250) items")
  from Cons.IH [of "time_sleep h w' 250"] rest wr show ?case by simp
qed

lemma feed_items_pipe_ok:
  assumes "\<forall>v. \<not> pipe_closed h v f"
    and "\<forall>v d. \<exists>n v'. os_write h v (pipe_fd h f) d = (Inr n, v')"
  shows "written (fst (feed_items h None (Some f) w items))
           = map (\<lambda>d. (pipe_fd h f, encode_replace h d)) items"
proof (induction items arbitrary: w)
  case Nil
  show ?case by simp
next
  case (Cons item items)
  from assms(2) obtain n w' where
    wr: "os_write h w (pipe_fd h f) (encode_replace h item) = (Inr n, w')"
    by blast
  obtain ev w'' where rest:
    "feed_items h None (Some f) (time_sleep h w' 250) items = (ev, w'')"
    by (cases "feed_items h None (Some f) (time_sleep h w' 250) items")
  from Cons.IH [of "time_sleep h w' 250"] rest wr assms(1) show ?case
    by (simp add: fileno_def)
qed

lemma feed_items_closed_after:
  assumes "feed_items h None (Some f) w pre = (ev1, w1)"
    and "length (written ev1) = length pre"
    and "pipe_closed h w1 f"
  shows "feed_items h None (Some f) w (pre @ item # post)
           = (ev1 @ [Log ''[auto-input] stdin closed; stopping\<newline>''], w1)"
  using assms
proof (induction pre arbitrary: w ev1)
  case Nil
  then show ?case by simp
next
  case (Cons x pre)
  show ?case
  proof (cases "pipe_closed h w f")
    case True
    with Cons.prems show ?thesis by auto
  next
    case False
    obtain r w' where wr: "os_write h w (pipe_fd h f) (encode_replace h x) = (r, w')"
      by (cases "os_write h w (pipe_fd h f) (encode_replace h x)")
    show ?thesis
    proof (cases r)
      case (Inl ex)
      with Cons.prems False wr show ?thesis by (auto simp: fileno_def)
    next
      case (Inr n)
      obtain ev w'' where rest:
        "feed_items h None (Some f) (time_sleep h w' 250) pre = (ev, w'')"
        by (cases "feed_items h None (Some f) (time_sleep h w' 250) pre")
      with Cons.prems False wr Inr have
        e: "ev1 = Wrote (pipe_fd h f) (encode_replace h x)
                    # Log (''[auto-input] '' @ py_repr x @ ''\<newline>'') # ev"
        and w: "w'' = w1"
        by (simp_all add: fileno_def)
      with Cons.prems have "length (written ev) = length pre" by simp
      from Cons.IH [OF rest [unfolded w] this Cons.prems(3)] False wr Inr e
      show ?thesis by (simp add: fileno_def)
    qed
  qed
qed


lemma send_yesforall_pty_ok:
  assumes "\<forall>v d. \<exists>n v'. os_write h v m d = (Inr n, v')"
  shows "written (fst (send_yesforall h (Some m) pipe w))
           = [(m, encode_replace h ''yesforall\<newline>'')]"
proof -
  from assms obtain n w' where
    "os_write h w m (encode_replace h ''yesforall\<newline>'') = (Inr n, w')" by blast
  then show ?thesis by (simp add: send_yesforall_def Let_def)
qed

lemma send_yesforall_pipe_ok:
  assumes "\<forall>v. \<not> pipe_closed h v f"
    and "\<forall>v d. \<exists>n v'. os_write h v (pipe_fd h f) d = (Inr n, v')"
  shows "written (fst (send_yesforall h None (Some f) w))
           = [(pipe_fd h f, encode_replace h ''yesforall\<newline>'')]"
proof -
  from assms(2) obtain n w' where
    "os_write h w (pipe_fd h f) (encode_replace h ''yesforall\<newline>'') = (Inr n, w')" by blast
  with assms(1) show ?thesis by (simp add: send_yesforall_def Let_def fileno_def)
qed

lemma send_yesforall_closed:
  "pipe_closed h w f \<Longrightarrow>
   send_yesforall h None (Some f) w
     = ([Log ''[auto-input-error] I/O operation on closed file\<newline>''], w)"
  by (simp add: send_yesforall_def Let_def fileno_def)

lemma start_feeder_started:
  "start_feeder h w s p = (Inr q, ev, w') \<Longrightarrow>
   q = p \<and> ev = [Start (case s of None \<Rightarrow> FeedYesforall
                            | Some items \<Rightarrow> if items \<noteq> [] then Feed items else FeedYesforall)]"
  by (auto simp: start_feeder_def split: prod.splits sum.splits)

lemma spawn_attempt_started:
  assumes "spawn_attempt h w cmd path cap s use_pty = (Inr q, ev, w')"
  shows "ev \<noteq> [] \<and>
         last ev = Start (case s of None \<Rightarrow> FeedYesforall
                          | Some items \<Rightarrow> if items \<noteq> [] then Feed items else FeedYesforall) \<and>
         (pty_master_fd q \<noteq> None \<or> stdin q \<noteq> None)"
proof -
  obtain fds ev1 w1 where a: "pty_setup h w use_pty = (fds, ev1, w1)"
    by (cases "pty_setup h w use_pty")
  show ?thesis
  proof (cases fds)
    case None
    with assms a obtain ev2 where
      b: "spawn_pipe h w1 cmd path cap s = (Inr q, ev2, w')" and e: "ev = ev1 @ ev2"
      by (auto simp: spawn_attempt_def split: prod.splits)
    from b have "ev2 \<noteq> [] \<and>
         last ev2 = Start (case s of None \<Rightarrow> FeedYesforall
                          | Some items \<Rightarrow> if items \<noteq> [] then Feed items else FeedYesforall) \<and>
         (pty_master_fd q \<noteq> None \<or> stdin q \<noteq> None)"
      by (auto simp: spawn_pipe_def split: prod.splits sum.splits dest!: start_feeder_started)
    with e show ?thesis by simp
  next
    case (Some ms)
    obtain m sl where ms: "ms = (m, sl)" by (cases ms)
    with Some assms a obtain ev2 where
      b: "spawn_pty h w1 cmd path s m sl = (Inr q, ev2, w')" and e: "ev = ev1 @ ev2"
      by (auto simp: spawn_attempt_def split: prod.splits)
    from b have "ev2 \<noteq> [] \<and>
         last ev2 = Start (case s of None \<Rightarrow> FeedYesforall
                          | Some items \<Rightarrow> if items \<noteq> [] then Feed items else FeedYesforall) \<and>
         (pty_master_fd q \<noteq> None \<or> stdin q \<noteq> None)"
      by (auto simp: spawn_pty_def split: prod.splits sum.splits dest!: start_feeder_started)
    with e show ?thesis by simp
  qed
qed

lemma try_cmds_started:
  "try_cmds h w cmds path cap s use_pty = (Some q, ev, w') \<Longrightarrow>
   ev \<noteq> [] \<and>
   last ev = Start (case s of None \<Rightarrow> FeedYesforall
                    | Some items \<Rightarrow> if items \<noteq> [] then Feed items else FeedYesforall) \<and>
   (pty_master_fd q \<noteq> None \<or> stdin q \<noteq> None)"
proof (induction cmds arbitrary: w ev w')
  case Nil
  then show ?case by simp
next
  case (Cons cmd cmds)
  obtain ra eva wa where a: "spawn_attempt h w cmd path cap s use_pty = (ra, eva, wa)"
    by (cases "spawn_attempt h w cmd path cap s use_pty")
  obtain r' ev' w'' where t: "try_cmds h wa cmds path cap s use_pty = (r', ev', w'')"
    by (cases "try_cmds h wa cmds path cap s use_pty")
  show ?case
  proof (cases ra)
    case (Inr p)
    with Cons.prems a have "p = q" "ev = eva" by simp_all
    with spawn_attempt_started [of h w cmd path cap s use_pty q eva wa] a Inr
    show ?thesis by simp
  next
    case (Inl ex)
    with Cons.prems a t Cons.IH [of wa ev' w''] show ?thesis
      by (cases ex) (auto split: if_splits)
  qed
qed


lemma feed_items_pty_fails_after:
  assumes "feed_items h (Some m) pipe w pre = (ev1, w1)"
    and "length (written ev1) = length pre"
    and "os_write h w1 m (encode_replace h item) = (Inl ex, w2)"
  shows "feed_items h (Some m) pipe w (pre @ item # post)
           = (ev1 @ [Log (''[auto-input-error] '' @ exn_str ex @ ''\<newline>'')], w2)"
  using assms
proof (induction pre arbitrary: w ev1)
  case Nil
  then show ?case by simp
next
  case (Cons x pre)
  obtain r w' where wr: "os_write h w m (encode_replace h x) = (r, w')"
    by (cases "os_write h w m (encode_replace h x)")
  show ?case
  proof (cases r)
    case (Inl e)
    with Cons.prems wr show ?thesis by auto
  next
    case (Inr n)
    obtain ev w'' where rest:
      "feed_items h (Some m) pipe (time_sleep h w' 250) pre = (ev, w'')"
      by (cases "feed_items h (Some m) pipe (time_sleep h w' 250) pre")
    with Cons.prems wr Inr have
      e: "ev1 = Wrote m (encode_replace h x)
                  # Log (''[auto-input] '' @ py_repr x @ ''\<newline>'') # ev"
      and w: "w'' = w1"
      by simp_all
    with Cons.prems have "length (written ev) = length pre" by simp
    from Cons.IH [OF rest [unfolded w] this Cons.prems(3)] wr Inr e
    show ?thesis by simp
  qed
qed

text \<open>
  A handle returned by \<open>spawn_setup_install\<close> for a non-empty input sequence has an
  input transport, and the thread started for it is \<open>_feed\<close> with that sequence. For
  every run of \<open>_feed\<close> the data written are, in order, a subsequence of the encoded
  items followed by the encoded sentinel \<open>yesforall\<newline>\<close>: nothing is reordered. When no
  write fails (and, for a pipe, the pipe never reports closed), what is written is exactly
  each item in order and then the sentinel, all to the active transport. When the pipe
  reports closed before an item, after the items \<open>pre\<close> were written, the feeder logs
  that it stops, the \<open>fileno()\<close> of the sentinel block raises on the closed pipe, which is
  logged, and nothing more is written. When a write to the pseudo-terminal raises at an
  item, the sentinel block runs after it: the sentinel is written when its write succeeds,
  and a second error is logged when it raises too.
\<close>

lemma feed_writes_in_order:
  "let enc = encode_replace h;
       yesforall = ''yesforall\<newline>'';
       ev = fst (feed h w p items)
   in (spawn_setup_install h w0 path extra_args capture_stdout (Some items) use_pty
         = (Some p, ev0, w) \<and> items \<noteq> [] \<longrightarrow>
         last ev0 = Start (Feed items) \<and> (pty_master_fd p \<noteq> None \<or> stdin p \<noteq> None)) \<and>
      subseq (map snd (written ev)) (map enc (items @ [yesforall])) \<and>
      (pty_master_fd p = Some m \<and> (\<forall>v d. \<exists>n v'. os_write h v m d = (Inr n, v')) \<longrightarrow>
         written ev = map (\<lambda>d. (m, enc d)) (items @ [yesforall])) \<and>
      (pty_master_fd p = None \<and> stdin p = Some f \<and> (\<forall>v. \<not> pipe_closed h v f) \<and>
       (\<forall>v d. \<exists>n v'. os_write h v (pipe_fd h f) d = (Inr n, v')) \<longrightarrow>
         written ev = map (\<lambda>d. (pipe_fd h f, enc d)) (items @ [yesforall])) \<and>
      (pty_master_fd p = None \<and> stdin p = Some f \<and> items = pre @ item # post \<and>
       feed_items h None (Some f) (time_sleep h w 200) pre = (ev1, w1) \<and>
       map snd (written ev1) = map enc pre \<and> pipe_closed h w1 f \<longrightarrow>
         ev = ev1 @ [Log ''[auto-input] stdin closed; stopping\<newline>'',
                     Log ''[auto-input-error] I/O operation on closed file\<newline>''] \<and>
         map snd (written ev) = map enc pre) \<and>
      (pty_master_fd p = Some m \<and> items = pre @ item # post \<and>
       feed_items h (Some m) None (time_sleep h w 200) pre = (ev1, w1) \<and>
       map snd (written ev1) = map enc pre \<and>
       os_write h w1 m (enc item) = (Inl ex, w2) \<and>
       os_write h w2 m (enc yesforall) = (Inl ex', w3) \<longrightarrow>
         ev = ev1 @ [Log (''[auto-input-error] '' @ exn_str ex @ ''\<newline>''),
                     Log (''[auto-input-error] '' @ exn_str ex' @ ''\<newline>'')] \<and>
         map snd (written ev) = map enc pre) \<and>
      (pty_master_fd p = Some m \<and> items = pre @ item # post \<and>
       feed_items h (Some m) None (time_sleep h w 200) pre = (ev1, w1) \<and>
       map snd (written ev1) = map enc pre \<and>
       os_write h w1 m (enc item) = (Inl ex, w2) \<and>
       os_write h w2 m (enc yesforall) = (Inr n, w3) \<longrightarrow>
         ev = ev1 @ [Log (''[auto-input-error] '' @ exn_str ex @ ''\<newline>''),
                     Wrote m (enc yesforall),
                     Log (''[auto-input] '' @ py_repr yesforall @ ''\<newline>'')] \<and>
         map snd (written ev) = map enc (pre @ [yesforall]))"
proof -
  have 0: "last ev0 = Start (Feed items) \<and> (pty_master_fd p \<noteq> None \<or> stdin p \<noteq> None)"
    if "spawn_setup_install h w0 path extra_args capture_stdout (Some items) use_pty
         = (Some p, ev0, w)" "items \<noteq> []"
    using that try_cmds_started [of h w0 _ path capture_stdout "Some items" use_pty p ev0 w]
    by (simp add: spawn_setup_install_def)
  have 1: "subseq (map snd (written (fst (feed h w p items))))
             (map (encode_replace h) (items @ [''yesforall\<newline>'']))"
    by (rule feed_subseq)
  have 2: "written (fst (feed h w p items))
             = map (\<lambda>d. (m, encode_replace h d)) (items @ [''yesforall\<newline>''])"
    if a: "pty_master_fd p = Some m" and b: "\<forall>v d. \<exists>n v'. os_write h v m d = (Inr n, v')"
  proof -
    obtain ev w1 where x: "feed_items h (Some m) None (time_sleep h w 200) items = (ev, w1)"
      by (cases "feed_items h (Some m) None (time_sleep h w 200) items")
    obtain ev' w2 where y: "send_yesforall h (Some m) None w1 = (ev', w2)"
      by (cases "send_yesforall h (Some m) None w1")
    from feed_items_pty_ok [OF b, of None "time_sleep h w 200" items] x
    have "written ev = map (\<lambda>d. (m, encode_replace h d)) items" by simp
    moreover from send_yesforall_pty_ok [OF b, of None w1] y
    have "written ev' = [(m, encode_replace h ''yesforall\<newline>'')]" by simp
    ultimately show ?thesis by (simp add: feed_pty [OF a] x y written_append)
  qed
  have 3: "written (fst (feed h w p items))
             = map (\<lambda>d. (pipe_fd h f, encode_replace h d)) (items @ [''yesforall\<newline>''])"
    if a: "pty_master_fd p = None" "stdin p = Some f" and b: "\<forall>v. \<not> pipe_closed h v f"
      and c: "\<forall>v d. \<exists>n v'. os_write h v (pipe_fd h f) d = (Inr n, v')"
  proof -
    obtain ev w1 where x: "feed_items h None (Some f) (time_sleep h w 200) items = (ev, w1)"
      by (cases "feed_items h None (Some f) (time_sleep h w 200) items")
    obtain ev' w2 where y: "send_yesforall h None (Some f) w1 = (ev', w2)"
      by (cases "send_yesforall h None (Some f) w1")
    from feed_items_pipe_ok [OF b c, of "time_sleep h w 200" items] x
    have "written ev = map (\<lambda>d. (pipe_fd h f, encode_replace h d)) items" by simp
    moreover from send_yesforall_pipe_ok [OF b c, of w1] y
    have "written ev' = [(pipe_fd h f, encode_replace h ''yesforall\<newline>'')]" by simp
    ultimately show ?thesis by (simp add: feed_pipe [OF a] x y written_append)
  qed
  have 4: "fst (feed h w p items)
             = ev1 @ [Log ''[auto-input] stdin closed; stopping\<newline>'',
                      Log ''[auto-input-error] I/O operation on closed file\<newline>''] \<and>
           map snd (written (fst (feed h w p items))) = map (encode_replace h) pre"
    if a: "pty_master_fd p = None" "stdin p = Some f" and i: "items = pre @ item # post"
      and x: "feed_items h None (Some f) (time_sleep h w 200) pre = (ev1, w1)"
      and y: "map snd (written ev1) = map (encode_replace h) pre"
      and c: "pipe_closed h w1 f"
  proof -
    from y have "length (written ev1) = length pre"
      by (metis length_map)
    from feed_items_closed_after [OF x this c, of item post]
    have "feed_items h None (Some f) (time_sleep h w 200) items
            = (ev1 @ [Log ''[auto-input] stdin closed; stopping\<newline>''], w1)"
      by (simp add: i)
    with send_yesforall_closed [OF c] y show ?thesis
      by (simp add: feed_pipe [OF a] written_append)
  qed
  have 5: "fst (feed h w p items)
             = ev1 @ [Log (''[auto-input-error] '' @ exn_str ex @ ''\<newline>''),
                      Log (''[auto-input-error] '' @ exn_str ex' @ ''\<newline>'')] \<and>
           map snd (written (fst (feed h w p items))) = map (encode_replace h) pre"
    if a: "pty_master_fd p = Some m" and i: "items = pre @ item # post"
      and x: "feed_items h (Some m) None (time_sleep h w 200) pre = (ev1, w1)"
      and y: "map snd (written ev1) = map (encode_replace h) pre"
      and c: "os_write h w1 m (encode_replace h item) = (Inl ex, w2)"
      and d: "os_write h w2 m (encode_replace h ''yesforall\<newline>'') = (Inl ex', w3)"
  proof -
    from y have "length (written ev1) = length pre"
      by (metis length_map)
    from feed_items_pty_fails_after [OF x this c, of post]
    have "feed_items h (Some m) None (time_sleep h w 200) items
            = (ev1 @ [Log (''[auto-input-error] '' @ exn_str ex @ ''\<newline>'')], w2)"
      by (simp add: i)
    with d y show ?thesis
      by (simp add: feed_pty [OF a] written_append send_yesforall_def Let_def)
  qed
  have 6: "fst (feed h w p items)
             = ev1 @ [Log (''[auto-input-error] '' @ exn_str ex @ ''\<newline>''),
                      Wrote m (encode_replace h ''yesforall\<newline>''),
                      Log (''[auto-input] '' @ py_repr ''yesforall\<newline>'' @ ''\<newline>'')] \<and>
           map snd (written (fst (feed h w p items)))
             = map (encode_replace h) (pre @ [''yesforall\<newline>''])"
    if a: "pty_master_fd p = Some m" and i: "items = pre @ item # post"
      and x: "feed_items h (Some m) None (time_sleep h w 200) pre = (ev1, w1)"
      and y: "map snd (written ev1) = map (encode_replace h) pre"
      and c: "os_write h w1 m (encode_replace h item) = (Inl ex, w2)"
      and d: "os_write h w2 m (encode_replace h ''yesforall\<newline>'') = (Inr n, w3)"
  proof -
    from y have "length (written ev1) = length pre"
      by (metis length_map)
    from feed_items_pty_fails_after [OF x this c, of post]
    have "feed_items h (Some m) None (time_sleep h w 200) items
            = (ev1 @ [Log (''[auto-input-error] '' @ exn_str ex @ ''\<newline>'')], w2)"
      by (simp add: i)
    with d y show ?thesis
      by (simp add: feed_pty [OF a] written_append send_yesforall_def Let_def)
  qed
  from 0 1 2 3 4 5 6 show ?thesis
    unfolding Let_def by blast
qed

lemma feed_writes_in_order_examples:
  "written (fst (feed example_host 1 \<lparr>pid = 7, pty_master_fd = Some 3, stdin = None\<rparr>
                   [''yes'', ''2'']))
     = [(3, ''yes''), (3, ''2''), (3, ''yesforall\<newline>'')] \<and>
   written (fst (feed example_host 1 \<lparr>pid = 7, pty_master_fd = None, stdin = Some 7\<rparr>
                   [''yes'', ''2'']))
     = [(5, ''yes''), (5, ''2''), (5, ''yesforall\<newline>'')] \<and>
   written (fst (feed closing_host 0 \<lparr>pid = 7, pty_master_fd = None, stdin = Some 7\<rparr>
                   [''yes'', ''2'']))
     = [(5, ''yes'')] \<and>
   written (fst (feed hangup_host 1 \<lparr>pid = 7, pty_master_fd = Some 3, stdin = None\<rparr>
                   [''yes'', ''2'']))
     = [(3, ''yes'')] \<and>
   last (fst (snd (spawn_setup_install example_host 0 ''/repo'' None True
                     (Some [''yes'', ''2'']) True)))
     = Start (Feed [''yes'', ''2''])"
  using feed_writes_in_order
          [where h = example_host and w = 1 and items = "[''yes'', ''2'']" and m = 3
             and p = "\<lparr>pid = 7, pty_master_fd = Some 3, stdin = None\<rparr>"
             and ?w0.0 = 0 and path = "''/repo''" and extra_args = None
             and capture_stdout = True and use_pty = True
             and ?ev0.0 = "[Exec [''./setup''], Log ''[spawn/pty] ./setup\<newline>'',
                           Start (Feed [''yes'', ''2''])]"]
        feed_writes_in_order
          [where h = example_host and w = 1 and items = "[''yes'', ''2'']" and f = 7
             and p = "\<lparr>pid = 7, pty_master_fd = None, stdin = Some 7\<rparr>"]
        feed_writes_in_order
          [where h = closing_host and w = 0 and items = "[''yes'', ''2'']" and f = 7
             and p = "\<lparr>pid = 7, pty_master_fd = None, stdin = Some 7\<rparr>"
             and pre = "[''yes'']" and item = "''2''" and post = "[]"
             and ?ev1.0 = "[Wrote 5 ''yes'', Log (''[auto-input] '' @ py_repr ''yes'' @ ''\<newline>'')]"
             and ?w1.0 = 1]
        feed_writes_in_order
          [where h = hangup_host and w = 1 and items = "[''yes'', ''2'']" and m = 3
             and p = "\<lparr>pid = 7, pty_master_fd = Some 3, stdin = None\<rparr>"
             and pre = "[''yes'']" and item = "''2''" and post = "[]"
             and ?ev1.0 = "[Wrote 3 ''yes'', Log (''[auto-input] '' @ py_repr ''yes'' @ ''\<newline>'')]"
             and ?w1.0 = 2 and ?w2.0 = 3 and ?w3.0 = 4
             and ex = "OSError (Some 5) ''[Errno 5] Input/output error''"
             and ex' = "OSError (Some 5) ''[Errno 5] Input/output error''"]
  by (simp add: Let_def feed_def send_yesforall_def fileno_def closing_host_def example_host_def
        hangup_host_def
        spawn_setup_install_def base_cmds_def spawn_attempt_def pty_setup_def spawn_pty_def
        start_feeder_def)

text \<open>
  C5. The sequence is \<open>yes\<close>, \<open>2\<close>. When no write fails, \<open>_feed\<close> writes \<open>yes\<close>, \<open>2\<close> and
  \<open>yesforall\<newline>\<close>, in this order, to the pseudo-terminal. On a pseudo-terminal whose
  write of \<open>2\<close> raises, \<open>_feed\<close> logs the error and leaves the loop with \<open>break\<close>, which
  takes it to the block after the loop that sends the sentinel: the write of the sentinel
  succeeds, and \<open>yesforall\<newline>\<close> is written after the failed write, to the transport
  that has just failed. The same happens on a pipe whose write of \<open>2\<close> raises. On a pipe
  that reports closed before \<open>2\<close>, \<open>_feed\<close> logs that it stops, leaves the loop, and runs the
  sentinel block as well: \<open>fileno()\<close> raises on the closed pipe, a second line is logged,
  and nothing is written. In none of the three runs does the feeder end at the \<open>break\<close>.
\<close>

theorem feeder_sends_sentinel_after_break:
  "written (fst (feed example_host 0 \<lparr>pid = 7, pty_master_fd = Some 3, stdin = None\<rparr>
                   [''yes'', ''2'']))
     = [(3, ''yes''), (3, ''2''), (3, ''yesforall\<newline>'')] \<and>
   fst (feed glitch_host 0 \<lparr>pid = 7, pty_master_fd = Some 3, stdin = None\<rparr> [''yes'', ''2''])
     = [Wrote 3 ''yes'',
        Log (''[auto-input] '' @ py_repr ''yes'' @ ''\<newline>''),
        Log ''[auto-input-error] [Errno 5] Input/output error\<newline>'',
        Wrote 3 ''yesforall\<newline>'',
        Log (''[auto-input] '' @ py_repr ''yesforall\<newline>'' @ ''\<newline>'')] \<and>
   written (fst (feed glitch_host 0 \<lparr>pid = 7, pty_master_fd = Some 3, stdin = None\<rparr>
                   [''yes'', ''2'']))
     = [(3, ''yes''), (3, ''yesforall\<newline>'')] \<and>
   written (fst (feed glitch_host 0 \<lparr>pid = 7, pty_master_fd = None, stdin = Some 7\<rparr>
                   [''yes'', ''2'']))
     = [(5, ''yes''), (5, ''yesforall\<newline>'')] \<and>
   fst (feed closing_host 0 \<lparr>pid = 7, pty_master_fd = None, stdin = Some 7\<rparr> [''yes'', ''2''])
     = [Wrote 5 ''yes'',
        Log (''[auto-input] '' @ py_repr ''yes'' @ ''\<newline>''),
        Log ''[auto-input] stdin closed; stopping\<newline>'',
        Log ''[auto-input-error] I/O operation on closed file\<newline>'']"
  by (simp add: Let_def feed_def send_yesforall_def fileno_def closing_host_def example_host_def
        glitch_host_def)

section \<open>Properties of the external terminal launcher\<close>

lemma try_terminals_none_available:
  assumes "\<forall>v n. case shutil_which h v n of None \<Rightarrow> True | Some found \<Rightarrow> found = []"
  shows "try_terminals h w ts path cmd = (False, [], w)"
proof (induction ts)
  case Nil
  show ?case by simp
next
  case (Cons t ts)
  obtain name base where t: "t = (name, base)" by (cases t)
  from assms have "\<not> (case shutil_which h w name of None \<Rightarrow> False | Some found \<Rightarrow> found \<noteq> [])"
    by (auto split: option.splits dest: spec [of _ w])
  with Cons t show ?case by simp
qed

lemma try_terminals_all_fail:
  assumes "\<forall>v c. cwd c = None \<longrightarrow> (\<exists>ex v'. popen h v c = (Inl ex, v'))"
  shows "fst (try_terminals h w ts path cmd) = False"
proof (induction ts arbitrary: w)
  case Nil
  show ?case by simp
next
  case (Cons t ts)
  obtain name base where t: "t = (name, base)" by (cases t)
  let ?c = "\<lparr>argv = terminal_argv base path cmd, cwd = None,
             stdin_spec = Inherited, stdout_spec = Inherited,
             stderr_spec = Inherited, text_mode = False, env = None\<rparr>"
  have "\<exists>ex v'. popen h w ?c = (Inl ex, v')"
    by (rule assms [rule_format, of ?c w]) simp
  then obtain ex v' where p: "popen h w ?c = (Inl ex, v')" by blast
  obtain r ev w'' where rest: "try_terminals h v' ts path cmd = (r, ev, w'')"
    by (cases "try_terminals h v' ts path cmd")
  with Cons.IH [of v'] have "r = False" by simp
  with t p rest Cons.IH [of w] show ?case by simp
qed

lemma try_terminals_none_started:
  assumes "\<forall>(name, base) \<in> set ts.
             (\<forall>v. case shutil_which h v name of None \<Rightarrow> True | Some found \<Rightarrow> found = []) \<or>
             (\<forall>v c. argv c = terminal_argv base path cmd \<and> cwd c = None \<longrightarrow>
                    (\<exists>ex v'. popen h v c = (Inl ex, v')))"
  shows "fst (try_terminals h w ts path cmd) = False"
  using assms
proof (induction ts arbitrary: w)
  case Nil
  show ?case by simp
next
  case (Cons t ts)
  obtain name base where t: "t = (name, base)" by (cases t)
  from Cons.prems have rest: "\<forall>(name, base) \<in> set ts.
             (\<forall>v. case shutil_which h v name of None \<Rightarrow> True | Some found \<Rightarrow> found = []) \<or>
             (\<forall>v c. argv c = terminal_argv base path cmd \<and> cwd c = None \<longrightarrow>
                    (\<exists>ex v'. popen h v c = (Inl ex, v')))"
    by simp
  from Cons.prems t have here:
    "(\<forall>v. case shutil_which h v name of None \<Rightarrow> True | Some found \<Rightarrow> found = []) \<or>
     (\<forall>v c. argv c = terminal_argv base path cmd \<and> cwd c = None \<longrightarrow>
            (\<exists>ex v'. popen h v c = (Inl ex, v')))"
    by simp
  show ?case
  proof (cases "case shutil_which h w name of None \<Rightarrow> False | Some found \<Rightarrow> found \<noteq> []")
    case False
    with t Cons.IH [OF rest, of w] show ?thesis by simp
  next
    case True
    then have "\<not> (\<forall>v. case shutil_which h v name of None \<Rightarrow> True | Some found \<Rightarrow> found = [])"
      by (auto split: option.splits)
    with here have f: "\<forall>v c. argv c = terminal_argv base path cmd \<and> cwd c = None \<longrightarrow>
            (\<exists>ex v'. popen h v c = (Inl ex, v'))" by blast
    let ?c = "\<lparr>argv = terminal_argv base path cmd, cwd = None,
               stdin_spec = Inherited, stdout_spec = Inherited,
               stderr_spec = Inherited, text_mode = False, env = None\<rparr>"
    have "\<exists>ex v'. popen h w ?c = (Inl ex, v')"
      by (rule f [rule_format, of ?c w]) simp
    then obtain ex v' where p: "popen h w ?c = (Inl ex, v')" by blast
    obtain r ev w'' where r: "try_terminals h v' ts path cmd = (r, ev, w'')"
      by (cases "try_terminals h v' ts path cmd")
    with Cons.IH [OF rest, of v'] have "r = False" by simp
    with t True p r show ?thesis by simp
  qed
qed

text \<open>
  C9 (amended). Probing for a terminal emulator and starting one never make
  \<open>launch_install_external\<close> raise: an exception leaves the function only from the
  final direct start of \<open>./setup install\<close>, which is then the last thing done; when that
  start cannot fail, the function returns normally whatever the probes and the terminals
  do. When no terminal emulator is found, the direct start in the repository directory is
  the only thing done, and its outcome is the outcome of the function; when terminal
  emulators are found and none can be started, the direct start follows the attempts,
  and when it raises, \<open>x\<close>, then \<open>x\<close> leaves the function: no attempt at a terminal
  before it makes the function swallow the exception of the direct start. This holds
  as soon as each of the six terminal emulators is either not found or fails to start.
\<close>

theorem launch_install_external_outcomes:
  "let args = ''install'' # (case extra_args of None \<Rightarrow> [] | Some a \<Rightarrow> a);
       cmd = ''./setup'' # args;
       direct = \<lparr>argv = cmd, cwd = Some path, stdin_spec = Inherited,
                 stdout_spec = Inherited, stderr_spec = Inherited,
                 text_mode = False, env = None\<rparr>;
       (r, ev, w') = launch_install_external h w path extra_args
   in (\<forall>ex. r = Inl ex \<longrightarrow>
         ev \<noteq> [] \<and> last ev = Exec cmd \<and> (\<exists>v. fst (popen h v direct) = Inl ex)) \<and>
      ((\<forall>v. \<exists>p v'. popen h v direct = (Inr p, v')) \<longrightarrow> r = Inr ()) \<and>
      ((\<forall>v n. case shutil_which h v n of None \<Rightarrow> True | Some found \<Rightarrow> found = []) \<longrightarrow>
         ev = [Exec cmd] \<and>
         (r, w') = (case popen h w direct of
                      (Inl ex, v) \<Rightarrow> (Inl ex, v)
                    | (Inr _, v) \<Rightarrow> (Inr (), v))) \<and>
      ((\<forall>v c. cwd c = None \<longrightarrow> (\<exists>ex v'. popen h v c = (Inl ex, v'))) \<longrightarrow>
         ev \<noteq> [] \<and> last ev = Exec cmd) \<and>
      ((\<forall>v c. cwd c = None \<longrightarrow> (\<exists>ex v'. popen h v c = (Inl ex, v'))) \<and>
       (\<forall>v. \<exists>v'. popen h v direct = (Inl x, v')) \<longrightarrow>
         r = Inl x \<and> ev \<noteq> [] \<and> last ev = Exec cmd) \<and>
      ((\<forall>(name, base) \<in> set terminals.
          (\<forall>v. case shutil_which h v name of None \<Rightarrow> True | Some found \<Rightarrow> found = []) \<or>
          (\<forall>v c. argv c = terminal_argv base path cmd \<and> cwd c = None \<longrightarrow>
                 (\<exists>ex v'. popen h v c = (Inl ex, v')))) \<longrightarrow>
         ev \<noteq> [] \<and> last ev = Exec cmd \<and>
         ((\<forall>v. \<exists>v'. popen h v direct = (Inl x, v')) \<longrightarrow> r = Inl x))"
proof -
  define cmd where "cmd = ''./setup'' # ''install'' # (case extra_args of None \<Rightarrow> [] | Some a \<Rightarrow> a)"
  define direct where "direct = \<lparr>argv = cmd, cwd = Some path, stdin_spec = Inherited,
                 stdout_spec = Inherited, stderr_spec = Inherited,
                 text_mode = False, env = None\<rparr>"
  obtain r ev w' where res: "launch_install_external h w path extra_args = (r, ev, w')"
    by (cases "launch_install_external h w path extra_args")
  obtain started ev1 w1 where tt: "try_terminals h w terminals path cmd = (started, ev1, w1)"
    by (cases "try_terminals h w terminals path cmd")
  obtain d w2 where p: "popen h w1 direct = (d, w2)" by (cases "popen h w1 direct")
  have lie: "launch_install_external h w path extra_args
      = (if started then (Inr (), ev1, w1)
         else (case d of Inl ex \<Rightarrow> (Inl ex, ev1 @ [Exec cmd], w2)
                        | Inr _ \<Rightarrow> (Inr (), ev1 @ [Exec cmd], w2)))"
    using tt p unfolding launch_install_external_def Let_def cmd_def [symmetric] direct_def [symmetric]
    by (cases started; cases d) (simp_all add: cmd_def direct_def)
  have 1: "ev \<noteq> [] \<and> last ev = Exec cmd \<and> (\<exists>v. fst (popen h v direct) = Inl ex)"
    if "r = Inl ex" for ex
  proof -
    from that res lie have "\<not> started" "d = Inl ex" "ev = ev1 @ [Exec cmd]"
      by (auto split: if_splits sum.splits)
    with p show ?thesis by (auto intro: exI [of _ w1])
  qed
  have 2: "r = Inr ()" if "\<forall>v. \<exists>p v'. popen h v direct = (Inr p, v')"
  proof -
    from that p obtain q where "d = Inr q" by (metis fst_conv)
    with res lie show ?thesis by (auto split: if_splits)
  qed
  have 3: "ev = [Exec cmd] \<and>
         (r, w') = (case popen h w direct of
                      (Inl ex, v) \<Rightarrow> (Inl ex, v)
                    | (Inr _, v) \<Rightarrow> (Inr (), v))"
    if "\<forall>v n. case shutil_which h v n of None \<Rightarrow> True | Some found \<Rightarrow> found = []"
  proof -
    from try_terminals_none_available [OF that, of w terminals path cmd] tt
    have "\<not> started" "ev1 = []" "w1 = w" by simp_all
    with res lie p show ?thesis by (cases d) auto
  qed
  have 4: "ev \<noteq> [] \<and> last ev = Exec cmd"
    if "\<forall>v c. cwd c = None \<longrightarrow> (\<exists>ex v'. popen h v c = (Inl ex, v'))"
  proof -
    from try_terminals_all_fail [OF that, of w terminals path cmd] tt
    have "\<not> started" by simp
    with res lie show ?thesis by (cases d) auto
  qed
  have 6: "r = Inl x \<and> ev \<noteq> [] \<and> last ev = Exec cmd"
    if f: "\<forall>v c. cwd c = None \<longrightarrow> (\<exists>ex v'. popen h v c = (Inl ex, v'))"
      and g: "\<forall>v. \<exists>v'. popen h v direct = (Inl x, v')"
  proof -
    from try_terminals_all_fail [OF f, of w terminals path cmd] tt
    have "\<not> started" by simp
    moreover from g p have "d = Inl x" by (metis fst_conv)
    ultimately show ?thesis using res lie by auto
  qed
  have 7: "ev \<noteq> [] \<and> last ev = Exec cmd \<and>
           ((\<forall>v. \<exists>v'. popen h v direct = (Inl x, v')) \<longrightarrow> r = Inl x)"
    if f: "\<forall>(name, base) \<in> set terminals.
          (\<forall>v. case shutil_which h v name of None \<Rightarrow> True | Some found \<Rightarrow> found = []) \<or>
          (\<forall>v c. argv c = terminal_argv base path cmd \<and> cwd c = None \<longrightarrow>
                 (\<exists>ex v'. popen h v c = (Inl ex, v')))"
  proof -
    from try_terminals_none_started [OF f, of w] tt
    have n: "\<not> started" by simp
    have "r = Inl x" if g: "\<forall>v. \<exists>v'. popen h v direct = (Inl x, v')"
    proof -
      from g p have "d = Inl x" by (metis fst_conv)
      with n res lie show ?thesis by auto
    qed
    moreover from n res lie have "ev \<noteq> [] \<and> last ev = Exec cmd" by (cases d) auto
    ultimately show ?thesis by blast
  qed
  have 5: "(\<forall>ex. r = Inl ex \<longrightarrow>
         ev \<noteq> [] \<and> last ev = Exec cmd \<and> (\<exists>v. fst (popen h v direct) = Inl ex)) \<and>
      ((\<forall>v. \<exists>p v'. popen h v direct = (Inr p, v')) \<longrightarrow> r = Inr ()) \<and>
      ((\<forall>v n. case shutil_which h v n of None \<Rightarrow> True | Some found \<Rightarrow> found = []) \<longrightarrow>
         ev = [Exec cmd] \<and>
         (r, w') = (case popen h w direct of
                      (Inl ex, v) \<Rightarrow> (Inl ex, v)
                    | (Inr _, v) \<Rightarrow> (Inr (), v))) \<and>
      ((\<forall>v c. cwd c = None \<longrightarrow> (\<exists>ex v'. popen h v c = (Inl ex, v'))) \<longrightarrow>
         ev \<noteq> [] \<and> last ev = Exec cmd) \<and>
      ((\<forall>v c. cwd c = None \<longrightarrow> (\<exists>ex v'. popen h v c = (Inl ex, v'))) \<and>
       (\<forall>v. \<exists>v'. popen h v direct = (Inl x, v')) \<longrightarrow>
         r = Inl x \<and> ev \<noteq> [] \<and> last ev = Exec cmd) \<and>
      ((\<forall>(name, base) \<in> set terminals.
          (\<forall>v. case shutil_which h v name of None \<Rightarrow> True | Some found \<Rightarrow> found = []) \<or>
          (\<forall>v c. argv c = terminal_argv base path cmd \<and> cwd c = None \<longrightarrow>
                 (\<exists>ex v'. popen h v c = (Inl ex, v')))) \<longrightarrow>
         ev \<noteq> [] \<and> last ev = Exec cmd \<and>
         ((\<forall>v. \<exists>v'. popen h v direct = (Inl x, v')) \<longrightarrow> r = Inl x))"
    using 1 2 3 4 6 7 by blast
  show ?thesis
    unfolding Let_def res prod.case
    using 5 unfolding cmd_def direct_def cmd_def .
qed

theorem launch_install_external_outcomes_witness:
  "launch_install_external probe_failing_host 0 ''/repo'' (Some [''--full''])
     = (Inr (), [Exec [''./setup'', ''install'', ''--full'']], 1) \<and>
   launch_install_external broken_terminal_host 0 ''/repo'' (Some [''--full''])
     = (Inr (),
        [Exec [''xterm'', ''-e'', ''sh'', ''-c'', ''cd /repo && ./setup install --full''],
         Exec [''./setup'', ''install'', ''--full'']], 2) \<and>
   launch_install_external failing_host 0 ''/repo'' (Some [''--full''])
     = (Inl (OSError (Some 2) ''[Errno 2] No such file or directory''),
        [Exec [''./setup'', ''install'', ''--full'']], 0) \<and>
   launch_install_external no_start_host 0 ''/repo'' (Some [''--full''])
     = (Inl (OSError (Some 2) ''[Errno 2] No such file or directory''),
        [Exec [''xterm'', ''-e'', ''sh'', ''-c'', ''cd /repo && ./setup install --full''],
         Exec [''./setup'', ''install'', ''--full'']], 2)"
  using launch_install_external_outcomes
          [where h = probe_failing_host and w = 0 and path = "''/repo''"
             and extra_args = "Some [''--full'']"
             and x = "OSError (Some 2) ''[Errno 2] No such file or directory''"]
        launch_install_external_outcomes
          [where h = broken_terminal_host and w = 0 and path = "''/repo''"
             and extra_args = "Some [''--full'']"
             and x = "OSError (Some 2) ''[Errno 2] No such file or directory''"]
        launch_install_external_outcomes
          [where h = failing_host and w = 0 and path = "''/repo''"
             and extra_args = "Some [''--full'']"
             and x = "OSError (Some 2) ''[Errno 2] No such file or directory''"]
        launch_install_external_outcomes
          [where h = no_start_host and w = 0 and path = "''/repo''"
             and extra_args = "Some [''--full'']"
             and x = "OSError (Some 2) ''[Errno 2] No such file or directory''"]
  by (simp add: launch_install_external_def terminals_def shutil_which_def terminal_argv_def
        shlex_join_def shlex_quote_def shlex_safe_def
        probe_failing_host_def broken_terminal_host_def failing_host_def no_start_host_def
        example_host_def)

text \<open>
  C9 as stated fails when no terminal emulator is found and \<open>./setup\<close> cannot
  be started: the exception of the direct start reaches the caller.
\<close>

theorem direct_start_failure_escapes:
  "fst (launch_install_external failing_host 0 ''/repo'' None)
     = Inl (OSError (Some 2) ''[Errno 2] No such file or directory'')"
  by (simp add: launch_install_external_def terminals_def shutil_which_def
        failing_host_def example_host_def)

end
